theory Spec2Isabelle
  imports Main "HOL-Library.Word"
begin

unbundle bit_operations_syntax

section \<open>Common types\<close>

text \<open>
  A byte of a \<^verbatim>\<open>std::string\<close> or of a raw buffer is an 8-bit word; \<^verbatim>\<open>DataSize\<close> is
  \<^verbatim>\<open>uint32_t\<close> (the constructor's \<^verbatim>\<open>static_assert(sizeof(DataSize) == 4)\<close>).
\<close>

type_synonym byte = "8 word"
type_synonym DataSize = "32 word"

text \<open>
  The exceptions the three components throw, by the name of the error code they carry.
  \<^verbatim>\<open>assertion_failed\<close> stands for a failed \<^verbatim>\<open>assert\<close>, \<^verbatim>\<open>bad_function_call\<close> for the
  exception of calling an empty \<^verbatim>\<open>std::function\<close>, \<^verbatim>\<open>already_exists_error\<close> and
  \<^verbatim>\<open>not_found_error\<close> for the two \<^verbatim>\<open>boost::interprocess\<close> exceptions of creating a
  shared-memory object that exists and of opening one that does not, \<^verbatim>\<open>interprocess_error\<close>
  for the one of a name the system refuses.
\<close>

datatype error =
    invalid_parameter
  | invalid_string_size
  | ipc_message_too_large
  | failed_to_connect
  | invalid_signature
  | assertion_failed
  | bad_function_call
  | already_exists_error
  | not_found_error
  | interprocess_error

text \<open>
  A C string: \<^verbatim>\<open>std::string(const char*)\<close> and every function that takes a \<^verbatim>\<open>const char*\<close>
  name read the bytes from the pointer up to the first NUL, and \<^verbatim>\<open>std::string::c_str()\<close> of
  a string with a NUL inside is read by its receiver up to that NUL.
\<close>

definition c_string :: "byte list \<Rightarrow> byte list" where
  "c_string memory = takeWhile (\<lambda>b. b \<noteq> 0) memory"

section \<open>TcpConnection (tcp\_connection.cc)\<close>

subsection \<open>Messages and framing\<close>

text \<open>
  Modelled from the spec: the element type of \<open>size_buffer\<close> in \<^verbatim>\<open>ReceivingMessage\<close> and
  \<^verbatim>\<open>SendingMessage\<close>, which are declared in tcp\_connection.h, not among the sources. The
  length prefix is "a 4-byte big-endian unsigned length prefix", so \<open>size_buffer\<close> is an
  array of four unsigned bytes (a list that always has length 4) and a byte read from it
  promotes to a non-negative \<^verbatim>\<open>int\<close>. (An array of plain \<^verbatim>\<open>char\<close> on a target where \<^verbatim>\<open>char\<close>
  is signed would sign-extend a byte above 127 in \<open>decode_size\<close> below.)
\<close>

record ReceivingMessage =
  size_buffer :: "byte list"
  data_buffer :: "byte list"

record SendingMessage =
  send_size_buffer :: "byte list"
  send_data :: "byte list"

text \<open>
  \<^verbatim>\<open>TcpConnection::EncodeData\<close>. \<open>MaxMessageSize\<close> is the value of the static function
  \<^verbatim>\<open>MaxMessageSize()\<close> of the absent header: a parameter of the model. The loop
  \<^verbatim>\<open>for (int i = 0; i != 4; ++i) size_buffer[i] = static_cast<char>(data.size() >> (8 * (3 - i)))\<close>
  is a fold over \<open>[0..<4]\<close>; the cast keeps the low eight bits of the shifted size.
\<close>

definition EncodeData :: "nat \<Rightarrow> byte list \<Rightarrow> error + SendingMessage" where
  "EncodeData MaxMessageSize data =
     (if data = [] then Inl invalid_string_size
      else if length data > MaxMessageSize then Inl ipc_message_too_large
      else Inr \<lparr> send_size_buffer =
                   fold (\<lambda>i buf. buf[i := word_of_nat (drop_bit (8 * (3 - i)) (length data))])
                     [0..<4] (replicate 4 0),
                 send_data = data \<rparr>)"

text \<open>
  The reassembly of \<^verbatim>\<open>data_size\<close> in the completion handler of \<^verbatim>\<open>TcpConnection::ReadSize\<close>:
  \<^verbatim>\<open>(((((b[0] << 8) | b[1]) << 8) | b[2]) << 8) | b[3]\<close>, each byte promoted to a 32-bit
  \<^verbatim>\<open>int\<close>, the result converted to \<^verbatim>\<open>uint32_t\<close>. The shifts are taken modulo \<open>2 ^ 32\<close>, as
  every two's-complement target computes them.
\<close>

definition decode_size :: "byte list \<Rightarrow> DataSize" where
  "decode_size b =
     push_bit 8 (push_bit 8 (push_bit 8 (ucast (b ! 0)) OR ucast (b ! 1)) OR ucast (b ! 2))
       OR ucast (b ! 3)"

text \<open>\<^verbatim>\<open>std::vector::resize\<close>: keeps the first \<open>n\<close> elements and pads with zero bytes.\<close>

definition resize :: "nat \<Rightarrow> byte list \<Rightarrow> byte list" where
  "resize n xs = take n xs @ replicate (n - length xs) 0"

subsection \<open>The connection, the executor and the socket\<close>

text \<open>
  What the connection does to its environment, in the order it does it: the calls on the
  socket, the asynchronous operations it starts, and the invocations of the two callbacks
  given to \<^verbatim>\<open>Start\<close>. A callback is identified by a number; an empty \<^verbatim>\<open>std::function\<close> is
  \<open>None\<close>. Callbacks are taken to return normally.
\<close>

datatype effect =
    socket_shutdown_send
  | socket_close
  | async_read_size
  | async_read_data nat
  | async_write "byte list" "byte list"
  | call_on_message_received nat "byte list"
  | call_on_connection_closed nat
  | throw_bad_function_call

text \<open>
  The function objects the connection hands to \<^verbatim>\<open>io_service_.post\<close>, to be run later by the
  single executor thread: the lambdas of \<^verbatim>\<open>Close\<close>, \<^verbatim>\<open>Start\<close>, \<^verbatim>\<open>Send\<close> and \<^verbatim>\<open>ReadData\<close>.
\<close>

datatype handler =
    post_DoClose
  | post_ReadSize
  | post_Send SendingMessage
  | post_on_message_received "byte list"

datatype read_operation = reading_size | reading_data

text \<open>
  The members of \<^verbatim>\<open>TcpConnection\<close>, with the part of the executor and of the socket that
  belongs to this connection: the handlers posted and not yet run, the asynchronous read
  and write that have been started and have not completed, and the effects so far.
  The two \<^verbatim>\<open>std::once_flag\<close>s are booleans, true once their \<^verbatim>\<open>call_once\<close> body has run.
\<close>

record TcpConnection =
  start_flag :: bool
  socket_close_flag :: bool
  socket_is_open :: bool
  on_message_received :: "nat option"
  on_connection_closed :: "nat option"
  receiving_message :: ReceivingMessage
  send_queue :: "SendingMessage list"
  posted :: "handler list"
  read_outstanding :: "read_operation option"
  write_outstanding :: bool
  effects :: "effect list"

text \<open>
  The member initialisers shared by the two constructors. The socket is not open; it is
  open when the connection is put to use if the second constructor has dialled or the
  listener has accepted into it, so the properties below start from \<open>new_connection\<close> with
  \<open>socket_is_open\<close> set either way.
\<close>

definition new_connection :: TcpConnection where
  "new_connection =
     \<lparr> start_flag = False, socket_close_flag = False, socket_is_open = False,
       on_message_received = None, on_connection_closed = None,
       receiving_message = \<lparr> size_buffer = replicate 4 0, data_buffer = [] \<rparr>,
       send_queue = [], posted = [], read_outstanding = None, write_outstanding = False,
       effects = [] \<rparr>"

text \<open>
  \<^verbatim>\<open>TcpConnection::TcpConnection(AsioService&)\<close>; the argument is what
  \<^verbatim>\<open>asio_service.ThreadCount()\<close> returns.
\<close>

definition TcpConnection_ctor :: "nat \<Rightarrow> error + TcpConnection" where
  "TcpConnection_ctor ThreadCount =
     (if ThreadCount \<noteq> 1 then Inl invalid_parameter else Inr new_connection)"

text \<open>
  \<^verbatim>\<open>TcpConnection::TcpConnection(AsioService&, uint16_t remote_port)\<close>. What the two
  \<^verbatim>\<open>socket_.connect\<close> calls do is the environment's answer: the error code and whether
  the socket is open after the call, for the IPv6 and for the IPv4 loopback endpoint.
\<close>

datatype asio_error = address_family_not_supported | other_asio_error

type_synonym connect_outcome = "asio_error option \<times> bool"

definition TcpConnection_ctor_connect ::
    "nat \<Rightarrow> connect_outcome \<Rightarrow> connect_outcome \<Rightarrow> error + TcpConnection" where
  "TcpConnection_ctor_connect ThreadCount v6 v4 =
     (if ThreadCount \<noteq> 1 then Inl invalid_parameter
      else let outcome = (if fst v6 = Some address_family_not_supported then v4 else v6)
           in if \<not> snd outcome then Inl failed_to_connect
              else Inr (new_connection\<lparr>socket_is_open := True\<rparr>))"

definition post :: "handler \<Rightarrow> TcpConnection \<Rightarrow> TcpConnection" where
  "post h c = c\<lparr>posted := posted c @ [h]\<rparr>"

definition emit :: "effect list \<Rightarrow> TcpConnection \<Rightarrow> TcpConnection" where
  "emit es c = c\<lparr>effects := effects c @ es\<rparr>"

text \<open>
  \<^verbatim>\<open>TcpConnection::DoClose\<close>: the body runs under \<^verbatim>\<open>std::call_once(socket_close_flag_, ...)\<close>,
  so only while the flag is unset; the callback is invoked only if it is non-empty.
\<close>

definition DoClose :: "TcpConnection \<Rightarrow> TcpConnection" where
  "DoClose c =
     (if socket_close_flag c then c
      else let c1 = emit [socket_shutdown_send, socket_close] (c\<lparr>socket_is_open := False\<rparr>);
               c2 = (case on_connection_closed c1 of
                       None \<Rightarrow> c1
                     | Some f \<Rightarrow> emit [call_on_connection_closed f] c1)
           in c2\<lparr>socket_close_flag := True\<rparr>)"

text \<open>\<^verbatim>\<open>TcpConnection::Close\<close> only posts \<^verbatim>\<open>DoClose\<close>.\<close>

definition Close :: "TcpConnection \<Rightarrow> TcpConnection" where
  "Close c = post post_DoClose c"

text \<open>\<^verbatim>\<open>TcpConnection::ReadSize\<close> and \<^verbatim>\<open>ReadData\<close> start an asynchronous read that fills
  \<open>size_buffer\<close>, respectively \<open>data_buffer\<close>.\<close>

definition ReadSize :: "TcpConnection \<Rightarrow> TcpConnection" where
  "ReadSize c = emit [async_read_size] (c\<lparr>read_outstanding := Some reading_size\<rparr>)"

definition ReadData :: "TcpConnection \<Rightarrow> TcpConnection" where
  "ReadData c =
     emit [async_read_data (length (data_buffer (receiving_message c)))]
       (c\<lparr>read_outstanding := Some reading_data\<rparr>)"

text \<open>
  The completion handler of \<^verbatim>\<open>ReadSize\<close>; \<open>ec\<close> is true when the read failed. On success
  the four bytes are already in \<open>size_buffer\<close>.
\<close>

definition ReadSize_handler :: "nat \<Rightarrow> bool \<Rightarrow> TcpConnection \<Rightarrow> TcpConnection" where
  "ReadSize_handler MaxMessageSize ec c =
     (if ec then DoClose c
      else let data_size = decode_size (size_buffer (receiving_message c))
           in if unat data_size > MaxMessageSize
              then DoClose (c\<lparr>receiving_message := (receiving_message c)\<lparr>data_buffer := []\<rparr>\<rparr>)
              else ReadData (c\<lparr>receiving_message := (receiving_message c)
                     \<lparr>data_buffer := resize (unat data_size) (data_buffer (receiving_message c))\<rparr>\<rparr>))"

text \<open>
  The completion handler of \<^verbatim>\<open>ReadData\<close>. It runs on the executor thread, so the
  \<^verbatim>\<open>dispatch\<close> of \<^verbatim>\<open>ReadSize\<close> runs at once, while the delivery is posted.
\<close>

definition ReadData_handler :: "bool \<Rightarrow> TcpConnection \<Rightarrow> TcpConnection" where
  "ReadData_handler ec c =
     (if ec then DoClose c
      else ReadSize (post (post_on_message_received (data_buffer (receiving_message c))) c))"

text \<open>\<^verbatim>\<open>TcpConnection::DoSend\<close> writes the front of the queue; both callers have checked
  that the queue is not empty.\<close>

definition DoSend :: "TcpConnection \<Rightarrow> TcpConnection" where
  "DoSend c =
     (case send_queue c of
        [] \<Rightarrow> c
      | m # _ \<Rightarrow> emit [async_write (send_size_buffer m) (send_data m)]
                   (c\<lparr>write_outstanding := True\<rparr>))"

definition DoSend_handler :: "bool \<Rightarrow> TcpConnection \<Rightarrow> TcpConnection" where
  "DoSend_handler ec c =
     (if ec then DoClose c
      else let c1 = c\<lparr>send_queue := tl (send_queue c)\<rparr>
           in if send_queue c1 \<noteq> [] then DoSend c1 else c1)"

text \<open>
  \<^verbatim>\<open>TcpConnection::Send\<close>: \<^verbatim>\<open>EncodeData\<close> may throw before anything is posted; the result is
  the exception or normal return, with the connection as the call leaves it. The posted
  lambda is \<open>Send_handler\<close>.
\<close>

definition Send :: "nat \<Rightarrow> byte list \<Rightarrow> TcpConnection \<Rightarrow> (error + unit) \<times> TcpConnection" where
  "Send MaxMessageSize data c =
     (case EncodeData MaxMessageSize data of
        Inl e \<Rightarrow> (Inl e, c)
      | Inr message \<Rightarrow> (Inr (), post (post_Send message) c))"

definition Send_handler :: "SendingMessage \<Rightarrow> TcpConnection \<Rightarrow> TcpConnection" where
  "Send_handler message c =
     (let currently_sending = (send_queue c \<noteq> []);
          c1 = c\<lparr>send_queue := send_queue c @ [message]\<rparr>
      in if \<not> currently_sending then DoSend c1 else c1)"

text \<open>
  \<^verbatim>\<open>TcpConnection::Start\<close>: the body runs under \<^verbatim>\<open>std::call_once(start_flag_, ...)\<close>.
  \<^verbatim>\<open>dispatch\<close> runs \<^verbatim>\<open>ReadSize\<close> at once when \<^verbatim>\<open>Start\<close> is called on the executor thread
  (\<open>in_io_thread\<close>) and posts it otherwise.
\<close>

definition Start :: "nat option \<Rightarrow> nat option \<Rightarrow> bool \<Rightarrow> TcpConnection \<Rightarrow> TcpConnection" where
  "Start message_received connection_closed in_io_thread c =
     (if start_flag c then c
      else let c1 = c\<lparr>on_message_received := message_received,
                       on_connection_closed := connection_closed\<rparr>;
               c2 = (if in_io_thread then ReadSize c1 else post post_ReadSize c1)
           in c2\<lparr>start_flag := True\<rparr>)"

text \<open>Running a posted handler. Calling an empty \<^verbatim>\<open>on_message_received_\<close> throws.\<close>

fun run_handler :: "nat \<Rightarrow> handler \<Rightarrow> TcpConnection \<Rightarrow> TcpConnection" where
  "run_handler MaxMessageSize post_DoClose c = DoClose c"
| "run_handler MaxMessageSize post_ReadSize c = ReadSize c"
| "run_handler MaxMessageSize (post_Send message) c = Send_handler message c"
| "run_handler MaxMessageSize (post_on_message_received data) c =
     (case on_message_received c of
        None \<Rightarrow> emit [throw_bad_function_call] c
      | Some f \<Rightarrow> emit [call_on_message_received f data] c)"

text \<open>
  What can happen to a connection: a call of its public interface, the executor running
  the oldest posted handler, or an outstanding read or write completing (\<open>ec\<close> true on
  failure; on success with the bytes read, as many as the buffer holds). A completion
  with no such operation outstanding, or with the wrong number of bytes, cannot happen
  and leaves the state as it is.
\<close>

datatype input =
    call_Start "nat option" "nat option" bool
  | call_Close
  | call_Send "byte list"
  | run_posted
  | read_completes bool "byte list"
  | write_completes bool

fun step :: "nat \<Rightarrow> input \<Rightarrow> TcpConnection \<Rightarrow> TcpConnection" where
  "step MaxMessageSize (call_Start f g t) c = Start f g t c"
| "step MaxMessageSize call_Close c = Close c"
| "step MaxMessageSize (call_Send data) c = snd (Send MaxMessageSize data c)"
| "step MaxMessageSize run_posted c =
     (case posted c of
        [] \<Rightarrow> c
      | h # hs \<Rightarrow> run_handler MaxMessageSize h (c\<lparr>posted := hs\<rparr>))"
| "step MaxMessageSize (read_completes ec bytes) c =
     (case read_outstanding c of
        None \<Rightarrow> c
      | Some reading_size \<Rightarrow>
          if ec then ReadSize_handler MaxMessageSize True (c\<lparr>read_outstanding := None\<rparr>)
          else if length bytes \<noteq> 4 then c
          else ReadSize_handler MaxMessageSize False
                 (c\<lparr>read_outstanding := None,
                    receiving_message := (receiving_message c)\<lparr>size_buffer := bytes\<rparr>\<rparr>)
      | Some reading_data \<Rightarrow>
          if ec then ReadData_handler True (c\<lparr>read_outstanding := None\<rparr>)
          else if length bytes \<noteq> length (data_buffer (receiving_message c)) then c
          else ReadData_handler False
                 (c\<lparr>read_outstanding := None,
                    receiving_message := (receiving_message c)\<lparr>data_buffer := bytes\<rparr>\<rparr>))"
| "step MaxMessageSize (write_completes ec) c =
     (if write_outstanding c
      then DoSend_handler ec (c\<lparr>write_outstanding := False\<rparr>)
      else c)"

fun run :: "nat \<Rightarrow> input list \<Rightarrow> TcpConnection \<Rightarrow> TcpConnection" where
  "run MaxMessageSize [] c = c"
| "run MaxMessageSize (i # is) c = run MaxMessageSize is (step MaxMessageSize i c)"

text \<open>Counting the effects of one kind.\<close>

fun is_closed_callback :: "effect \<Rightarrow> bool" where
  "is_closed_callback (call_on_connection_closed f) = True"
| "is_closed_callback e = False"

fun is_read :: "effect \<Rightarrow> bool" where
  "is_read async_read_size = True"
| "is_read (async_read_data n) = True"
| "is_read e = False"

definition closed_callbacks :: "TcpConnection \<Rightarrow> nat" where
  "closed_callbacks c = length (filter is_closed_callback (effects c))"

definition shutdowns :: "TcpConnection \<Rightarrow> nat" where
  "shutdowns c = count_list (effects c) socket_shutdown_send"

definition socket_closes :: "TcpConnection \<Rightarrow> nat" where
  "socket_closes c = count_list (effects c) socket_close"

fun is_callback :: "effect \<Rightarrow> bool" where
  "is_callback (call_on_connection_closed f) = True"
| "is_callback (call_on_message_received f d) = True"
| "is_callback e = False"

fun is_call_Start :: "input \<Rightarrow> bool" where
  "is_call_Start (call_Start f g t) = True"
| "is_call_Start i = False"

subsection \<open>Views of the state used in the proofs\<close>

text \<open>
  The part of the state the close path is about: the close flag and how often the socket
  has been shut down and closed and the closed callback invoked. \<open>after_close\<close> is what it
  becomes when the body of \<open>DoClose\<close> runs; \<open>close_step\<close> says that a transition either
  leaves it alone or is that one run of the body, from an unset flag.
\<close>

definition close_state :: "TcpConnection \<Rightarrow> bool \<times> nat \<times> nat \<times> nat" where
  "close_state c = (socket_close_flag c, shutdowns c, socket_closes c, closed_callbacks c)"

definition after_close :: "TcpConnection \<Rightarrow> bool \<times> nat \<times> nat \<times> nat" where
  "after_close c =
     (True, Suc (shutdowns c), Suc (socket_closes c),
      closed_callbacks c + (case on_connection_closed c of None \<Rightarrow> 0 | Some f \<Rightarrow> 1))"

definition close_step :: "TcpConnection \<Rightarrow> TcpConnection \<Rightarrow> bool" where
  "close_step c c' =
     (close_state c' = close_state c \<or>
      (\<not> socket_close_flag c \<and> close_state c' = after_close c))"

definition close_inv :: "TcpConnection \<Rightarrow> bool" where
  "close_inv c =
     (if socket_close_flag c
      then shutdowns c = 1 \<and> socket_closes c = 1 \<and> closed_callbacks c \<le> 1
      else shutdowns c = 0 \<and> socket_closes c = 0 \<and> closed_callbacks c = 0)"

text \<open>
  The executor running every handler that is posted, oldest first (a handler posts
  nothing). The inputs that take the close path: the executor running a posted \<open>DoClose\<close>,
  a read completing with an error or with a length prefix above the maximum, and a write
  completing with an error. \<open>closed_from\<close> is the close state from then on.
\<close>

definition drain :: "nat \<Rightarrow> TcpConnection \<Rightarrow> TcpConnection" where
  "drain MaxMessageSize c = run MaxMessageSize (replicate (length (posted c)) run_posted) c"

fun closes_connection :: "nat \<Rightarrow> input \<Rightarrow> TcpConnection \<Rightarrow> bool" where
  "closes_connection MaxMessageSize run_posted c =
     (case posted c of post_DoClose # hs \<Rightarrow> True | _ \<Rightarrow> False)"
| "closes_connection MaxMessageSize (read_completes ec bytes) c =
     (case read_outstanding c of
        None \<Rightarrow> False
      | Some reading_size \<Rightarrow> ec \<or> (length bytes = 4 \<and> unat (decode_size bytes) > MaxMessageSize)
      | Some reading_data \<Rightarrow> ec)"
| "closes_connection MaxMessageSize (write_completes ec) c = (write_outstanding c \<and> ec)"
| "closes_connection MaxMessageSize i c = False"

definition closed_from :: "TcpConnection \<Rightarrow> bool \<times> nat \<times> nat \<times> nat" where
  "closed_from c = (if socket_close_flag c then close_state c else after_close c)"




fun sent_frames :: "nat \<Rightarrow> input list \<Rightarrow> SendingMessage list" where
  "sent_frames MaxMessageSize [] = []"
| "sent_frames MaxMessageSize (call_Send data # ins) =
     (case EncodeData MaxMessageSize data of
        Inl e \<Rightarrow> sent_frames MaxMessageSize ins
      | Inr message \<Rightarrow> message # sent_frames MaxMessageSize ins)"
| "sent_frames MaxMessageSize (i # ins) = sent_frames MaxMessageSize ins"

text \<open>
  The frames handed to \<^verbatim>\<open>asio::async_write\<close> so far, in the order of the calls: a write
  puts the four length bytes and then the payload on the socket, and a write is started
  only when the one before has completed, so this is the order of the bytes on the wire.
  \<open>pipeline\<close> adds what is still on its way: the queue behind its front (the front is the
  frame being written) and the frames of the posted \<open>Send\<close> handlers.
\<close>

fun written :: "effect list \<Rightarrow> SendingMessage list" where
  "written [] = []"
| "written (async_write b d # es) = \<lparr> send_size_buffer = b, send_data = d \<rparr> # written es"
| "written (e # es) = written es"

fun posted_sends :: "handler list \<Rightarrow> SendingMessage list" where
  "posted_sends [] = []"
| "posted_sends (post_Send message # hs) = message # posted_sends hs"
| "posted_sends (h # hs) = posted_sends hs"

definition pipeline :: "TcpConnection \<Rightarrow> SendingMessage list" where
  "pipeline c = written (effects c) @ tl (send_queue c) @ posted_sends (posted c)"


definition sending_ok :: "TcpConnection \<Rightarrow> bool" where
  "sending_ok c = (send_queue c \<noteq> [] \<longrightarrow> write_outstanding c)"





text \<open>
  The read chain: each read is started by the completion of the one before, or by
  \<open>Start\<close>, so at most one read is outstanding or about to be started by a posted
  \<open>ReadSize\<close>, and none before \<open>Start\<close>. Once a started connection has none, the chain has
  ended.
\<close>

definition read_chain :: "TcpConnection \<Rightarrow> nat" where
  "read_chain c =
     (case read_outstanding c of None \<Rightarrow> 0 | Some k \<Rightarrow> 1) + count_list (posted c) post_ReadSize"

definition read_chain_inv :: "TcpConnection \<Rightarrow> bool" where
  "read_chain_inv c =
     ((start_flag c \<longrightarrow> read_chain c \<le> 1) \<and> (\<not> start_flag c \<longrightarrow> read_chain c = 0))"

definition reads_ended :: "TcpConnection \<Rightarrow> bool" where
  "reads_ended c = (start_flag c \<and> read_chain c = 0)"

text \<open>A connection on which the body of \<open>Start\<close> has not run and no callback was invoked.\<close>

definition unstarted :: "TcpConnection \<Rightarrow> bool" where
  "unstarted c =
     (\<not> start_flag c \<and> on_connection_closed c = None \<and> on_message_received c = None
      \<and> filter is_callback (effects c) = [])"

section \<open>SharedMemoryCommunication (shared\_memory\_communication.h)\<close>

text \<open>
  The template parameter \<^verbatim>\<open>CreationTag\<close>: the creator is instantiated with
  \<^verbatim>\<open>detail::SharedMemoryCreateOnly\<close>, the opener with \<^verbatim>\<open>detail::SharedMemoryOpenOnly\<close>.
\<close>

datatype CreationTag = SharedMemoryCreateOnly | SharedMemoryOpenOnly

text \<open>
  The shared memory of the operating system: which names it accepts for an object (POSIX
  systems refuse the empty name and, most of them, a name with a slash inside), and the
  objects, each known under the C string it was created with. An object carries an
  identity, so that two objects created under one name at different times can be told
  apart, its size, and whether a queue has been constructed in it.
\<close>

record shared_memory_object =
  object_id :: nat
  object_size :: nat
  queue_constructed :: bool

record shared_memory =
  accepts_name :: "byte list \<Rightarrow> bool"
  objects :: "byte list \<rightharpoonup> shared_memory_object"
  next_object_id :: nat

definition no_shared_memory :: shared_memory where
  "no_shared_memory =
     \<lparr> accepts_name = (\<lambda>name. name \<noteq> [] \<and> 47 \<notin> set name), objects = Map.empty,
       next_object_id = 0 \<rparr>"

text \<open>
  Modelled from the spec: \<^verbatim>\<open>detail::DecideDeletion\<close> of queue\_operations.h, which is not
  among the sources. "Creator role: deletes any stale OS-level object of that name first
  (defensive cleanup from a previous crash)"; the opener "does not delete it". The system
  knows the object by the C string of the name
  (\<^verbatim>\<open>shared_memory_object::remove(const char*)\<close>).
\<close>

definition DecideDeletion ::
    "CreationTag \<Rightarrow> byte list \<Rightarrow> shared_memory \<Rightarrow> shared_memory" where
  "DecideDeletion tag name os =
     (case tag of
        SharedMemoryCreateOnly \<Rightarrow> os\<lparr>objects := (objects os)(c_string name := None)\<rparr>
      | SharedMemoryOpenOnly \<Rightarrow> os)"

text \<open>
  The constructor of \<^verbatim>\<open>boost::interprocess::shared_memory_object\<close> with the tag as its first
  argument and the name as a \<^verbatim>\<open>const char*\<close>, here the C string already read: it throws for
  a name the system refuses; \<^verbatim>\<open>create_only\<close> "creates the region exclusively (fails if one
  already exists)", \<^verbatim>\<open>open_only\<close> "attaches to an already-existing region of that name
  (fails if none exists)". It returns the identity of the object it holds.
\<close>

definition shared_memory_object_ctor ::
    "CreationTag \<Rightarrow> byte list \<Rightarrow> shared_memory \<Rightarrow> (error + nat) \<times> shared_memory" where
  "shared_memory_object_ctor tag name os =
     (if \<not> accepts_name os name then (Inl interprocess_error, os)
      else case tag of
        SharedMemoryCreateOnly \<Rightarrow>
          (case objects os name of
             Some obj \<Rightarrow> (Inl already_exists_error, os)
           | None \<Rightarrow>
               (Inr (next_object_id os),
                os\<lparr>objects := (objects os)(name \<mapsto>
                       \<lparr>object_id = next_object_id os, object_size = 0,
                        queue_constructed = False\<rparr>),
                   next_object_id := Suc (next_object_id os)\<rparr>))
      | SharedMemoryOpenOnly \<Rightarrow>
          (case objects os name of
             Some obj \<Rightarrow> (Inr (object_id obj), os)
           | None \<Rightarrow> (Inl not_found_error, os)))"

definition update_object ::
    "byte list \<Rightarrow> (shared_memory_object \<Rightarrow> shared_memory_object) \<Rightarrow> shared_memory
       \<Rightarrow> shared_memory" where
  "update_object name f os =
     (case objects os name of
        None \<Rightarrow> os
      | Some obj \<Rightarrow> os\<lparr>objects := (objects os)(name \<mapsto> f obj)\<rparr>)"

text \<open>
  Modelled from the spec: \<^verbatim>\<open>detail::DecideTruncate\<close> and \<^verbatim>\<open>detail::CreateQueue\<close> of
  queue\_operations.h. The creator "sizes it to exactly hold the queue structure, and
  constructs the queue in place"; the opener only attaches. \<open>queue_size\<close> is
  \<^verbatim>\<open>sizeof(IpcBidirectionalQueue)\<close>; \<open>name\<close> is the C string the object was made under.
\<close>

definition DecideTruncate ::
    "nat \<Rightarrow> CreationTag \<Rightarrow> byte list \<Rightarrow> shared_memory \<Rightarrow> shared_memory" where
  "DecideTruncate queue_size tag name os =
     (case tag of
        SharedMemoryCreateOnly \<Rightarrow>
          update_object name (\<lambda>obj. obj\<lparr>object_size := queue_size\<rparr>) os
      | SharedMemoryOpenOnly \<Rightarrow> os)"

definition CreateQueue :: "CreationTag \<Rightarrow> byte list \<Rightarrow> shared_memory \<Rightarrow> shared_memory" where
  "CreateQueue tag name os =
     (case tag of
        SharedMemoryCreateOnly \<Rightarrow>
          update_object name (\<lambda>obj. obj\<lparr>queue_constructed := True\<rparr>) os
      | SharedMemoryOpenOnly \<Rightarrow> os)"

text \<open>
  The members of \<^verbatim>\<open>SharedMemoryCommunication\<close> that its constructor decides, and the
  constructor, in the order of its body. The name is the string of a \<^verbatim>\<open>name_type\<close>, the 64
  bytes of an identity, any of which may be zero. \<^verbatim>\<open>assert(message_notifier_)\<close> fails for an
  empty notifier, before anything is touched. \<^verbatim>\<open>DecideDeletion\<close> is given the whole string;
  the \<^verbatim>\<open>shared_memory_object\<close> is given \<^verbatim>\<open>shared_memory_name_->string().c_str()\<close>, which it
  reads as a C string, and may throw, after the deletion has happened; then come
  \<^verbatim>\<open>DecideTruncate\<close>, the mapping and \<^verbatim>\<open>CreateQueue\<close>. The result is the exception or the new
  object, with the shared memory of the system as the call leaves it.
\<close>

record SharedMemoryCommunication =
  shared_memory_name :: "byte list"
  creation_tag :: CreationTag
  mapped_object :: nat
  message_notifier :: nat
  receive_flag :: bool

definition SharedMemoryCommunication_ctor ::
    "nat \<Rightarrow> CreationTag \<Rightarrow> byte list \<Rightarrow> nat option \<Rightarrow> shared_memory
       \<Rightarrow> (error + SharedMemoryCommunication) \<times> shared_memory" where
  "SharedMemoryCommunication_ctor queue_size tag name notifier os =
     (case notifier of
        None \<Rightarrow> (Inl assertion_failed, os)
      | Some f \<Rightarrow>
          (let os1 = DecideDeletion tag name os
           in (case shared_memory_object_ctor tag (c_string name) os1 of
                 (Inl e, os2) \<Rightarrow> (Inl e, os2)
               | (Inr obj, os2) \<Rightarrow>
                   (Inr \<lparr> shared_memory_name = name, creation_tag = tag, mapped_object = obj,
                          message_notifier = f, receive_flag = True \<rparr>,
                    CreateQueue tag (c_string name)
                      (DecideTruncate queue_size tag (c_string name) os2)))))"

text \<open>
  \<^verbatim>\<open>SharedMemoryCommunication::PushMessage\<close>. The constant
  \<^verbatim>\<open>IpcBidirectionalQueue::kMessageSize\<close> and \<^verbatim>\<open>detail::PushMessageToQueue<CreationTag>::Push\<close>
  are declared in queue\_operations.h: both are parameters. \<open>Push\<close> takes the queue and the
  message and returns its boolean or throws, with the queue as it leaves it.
\<close>

definition PushMessage ::
    "nat \<Rightarrow> ('q \<Rightarrow> byte list \<Rightarrow> (error + bool) \<times> 'q) \<Rightarrow> byte list \<Rightarrow> 'q
       \<Rightarrow> (error + bool) \<times> 'q" where
  "PushMessage kMessageSize Push message message_queue =
     (if length message > kMessageSize then (Inr False, message_queue)
      else Push message_queue message)"

section \<open>SafeReadOnlySharedMemory and LifeStuffManagerAddressGetter\<close>

text \<open>
  Modelled from the spec: \<^verbatim>\<open>detail::SafeAddress\<close>, declared in queue\_operations.h, not among
  the sources. "A fixed-size byte buffer holding an address and a fixed-size byte buffer
  holding a signature, guarded by one mutex, stored inside a shared-memory region sized
  exactly to hold {mutex, address bytes, signature bytes}", so two \<^verbatim>\<open>char\<close> arrays, the
  address and then the signature. The source fixes their sizes: the \<^verbatim>\<open>assert\<close> before each \<^verbatim>\<open>memcpy\<close>
  requires \<^verbatim>\<open>sizeof(safe_address_->address)\<close> to be the size of the address string and
  \<^verbatim>\<open>sizeof(safe_address_->signature)\<close> the size of the signature string, so neither array
  has room for a terminating NUL. Each operation holds the mutex from its first statement
  to its last, so it is one atomic step and the mutex is not modelled.
\<close>

record SafeAddress =
  address :: "byte list"
  signature :: "byte list"

text \<open>
  \<^verbatim>\<open>ChangeAddress\<close> and \<^verbatim>\<open>GetAddress\<close> both pass the array \<^verbatim>\<open>safe_address_->address\<close> where
  a \<^verbatim>\<open>std::string\<close> is expected (\<^verbatim>\<open>Identity current_address(safe_address_->address)\<close>,
  \<^verbatim>\<open>std::string s(safe_address_->address)\<close>, \<^verbatim>\<open>Identity(safe_address_->address)\<close>), so the
  string starts at the first byte of \<open>address\<close>, stops at the first NUL in it and, when
  \<open>address\<close> holds none, runs on into the bytes stored behind it: \<open>signature\<close>, then the
  rest of the mapped page, which is zero.
\<close>

definition string_at_address :: "SafeAddress \<Rightarrow> byte list" where
  "string_at_address s = c_string (address s @ signature s)"

text \<open>
  \<^verbatim>\<open>Identity\<close> is the \<^verbatim>\<open>BoundedString<64, 64>\<close> of the MaidSafe common library, which is not
  part of this repository: its constructor throws \<^verbatim>\<open>CommonErrors::invalid_string_size\<close> for
  a string of any other length. The operations below take the constructor as their first
  parameter, so that what they do can also be stated for a constructor that accepts every
  string (\<open>Inr\<close>).
\<close>

definition Identity :: "byte list \<Rightarrow> error + byte list" where
  "Identity str = (if length str = 64 then Inr str else Inl invalid_string_size)"

text \<open>
  The constructor of \<^verbatim>\<open>SafeReadOnlySharedMemory\<close>: it creates the region
  \<^verbatim>\<open>"lifestuff_manager"\<close> exclusively, sizes it, and copies the name of the \<^verbatim>\<open>Maid\<close> and the
  signature over it into the two arrays, all of their bytes, after asserting that each
  fills its array. \<open>region_size\<close>, \<open>address_size\<close> and \<open>signature_size\<close> are
  \<^verbatim>\<open>sizeof(detail::SafeAddress)\<close> and the sizes of its two arrays; \<open>initial_signature\<close> is
  what \<^verbatim>\<open>asymm::Sign\<close> returns.
\<close>

text \<open>The bytes of the name \<^verbatim>\<open>"lifestuff_manager"\<close>.\<close>

definition lifestuff_manager :: "byte list" where
  "lifestuff_manager =
     [108, 105, 102, 101, 115, 116, 117, 102, 102, 95, 109, 97, 110, 97, 103, 101, 114]"

definition SafeReadOnlySharedMemory_ctor ::
    "nat \<Rightarrow> nat \<Rightarrow> nat \<Rightarrow> byte list \<Rightarrow> byte list \<Rightarrow> shared_memory
       \<Rightarrow> (error + SafeAddress) \<times> shared_memory" where
  "SafeReadOnlySharedMemory_ctor region_size address_size signature_size maid_name
       initial_signature os =
     (case shared_memory_object_ctor SharedMemoryCreateOnly lifestuff_manager os of
        (Inl e, os1) \<Rightarrow> (Inl e, os1)
      | (Inr obj, os1) \<Rightarrow>
          let os2 = update_object lifestuff_manager
                      (\<lambda>obj. obj\<lparr>object_size := region_size\<rparr>) os1
          in if address_size \<noteq> length maid_name then (Inl assertion_failed, os2)
             else if signature_size \<noteq> length initial_signature then (Inl assertion_failed, os2)
             else (Inr \<lparr> address = maid_name, signature = initial_signature \<rparr>, os2))"

text \<open>
  \<^verbatim>\<open>SafeReadOnlySharedMemory::ChangeAddress\<close>. \<open>CheckSignature\<close> is \<^verbatim>\<open>asymm::CheckSignature\<close>
  and \<open>public_key\<close> is \<^verbatim>\<open>maid_.public_key()\<close>. The second assertion fails after the first
  \<^verbatim>\<open>memcpy\<close> has been done.
\<close>

definition ChangeAddress ::
    "(byte list \<Rightarrow> error + byte list) \<Rightarrow> (byte list \<Rightarrow> byte list \<Rightarrow> 'key \<Rightarrow> bool) \<Rightarrow> 'key
       \<Rightarrow> byte list \<Rightarrow> byte list \<Rightarrow> SafeAddress \<Rightarrow> (error + unit) \<times> SafeAddress" where
  "ChangeAddress Identity_ctor CheckSignature public_key new_address new_signature s =
     (case Identity_ctor (string_at_address s) of
        Inl e \<Rightarrow> (Inl e, s)
      | Inr current_address \<Rightarrow>
          if current_address = new_address then (Inr (), s)
          else if CheckSignature new_address new_signature public_key
          then if length (address s) \<noteq> length new_address then (Inl assertion_failed, s)
               else if length (signature s) \<noteq> length new_signature
               then (Inl assertion_failed, s\<lparr>address := new_address\<rparr>)
               else (Inr (), s\<lparr>address := new_address, signature := new_signature\<rparr>)
          else (Inl invalid_signature, s))"

text \<open>\<^verbatim>\<open>LifeStuffManagerAddressGetter::GetAddress\<close>, on the same region.\<close>

definition GetAddress :: "(byte list \<Rightarrow> error + byte list) \<Rightarrow> SafeAddress \<Rightarrow> error + byte list" where
  "GetAddress Identity_ctor s = Identity_ctor (string_at_address s)"

section \<open>Properties of TcpConnection\<close>

subsection \<open>Framing: the length prefix survives the round trip\<close>

lemmas conn_defs = DoClose_def Close_def ReadSize_def ReadData_def ReadSize_handler_def
  ReadData_handler_def DoSend_def DoSend_handler_def Send_def Send_handler_def Start_def
  post_def emit_def

lemmas count_defs = closed_callbacks_def shutdowns_def socket_closes_def

lemma EncodeData_size_buffer:
  "fold (\<lambda>i buf. buf[i := word_of_nat (drop_bit (8 * (3 - i)) n)]) [0..<4] (replicate 4 (0::byte))
     = [word_of_nat (drop_bit 24 n), word_of_nat (drop_bit 16 n),
        word_of_nat (drop_bit 8 n), word_of_nat n]"
  by (simp add: upt_rec numeral_eq_Suc)



lemma EncodeData_valid:
  assumes "data \<noteq> []" and "length data \<le> MaxMessageSize"
  shows "EncodeData MaxMessageSize data =
           Inr \<lparr> send_size_buffer =
                   [word_of_nat (drop_bit 24 (length data)), word_of_nat (drop_bit 16 (length data)),
                    word_of_nat (drop_bit 8 (length data)), word_of_nat (length data)],
                 send_data = data \<rparr>"
  using assms by (simp add: EncodeData_def EncodeData_size_buffer)

lemma run_append: "run mx (xs @ ys) c = run mx ys (run mx xs c)"
  by (induction xs arbitrary: c) simp_all



subsection \<open>Rejections on the two paths\<close>

lemma DoClose_fields [simp]:
  "read_outstanding (DoClose c) = read_outstanding c"
  "posted (DoClose c) = posted c"
  "start_flag (DoClose c) = start_flag c"
  "filter is_read (effects (DoClose c)) = filter is_read (effects c)"
  by (simp_all add: DoClose_def emit_def Let_def split: option.splits)

lemma DoSend_fields [simp]:
  "read_outstanding (DoSend c) = read_outstanding c"
  "posted (DoSend c) = posted c"
  "start_flag (DoSend c) = start_flag c"
  "filter is_read (effects (DoSend c)) = filter is_read (effects c)"
  by (simp_all add: DoSend_def emit_def split: list.splits)

lemma Send_handler_fields [simp]:
  "read_outstanding (Send_handler m c) = read_outstanding c"
  "posted (Send_handler m c) = posted c"
  "start_flag (Send_handler m c) = start_flag c"
  "filter is_read (effects (Send_handler m c)) = filter is_read (effects c)"
  by (simp_all add: Send_handler_def Let_def)

lemma read_chain_simps [simp]:
  "read_chain (DoClose c) = read_chain c"
  "read_chain (DoSend c) = read_chain c"
  "read_chain (Send_handler m c) = read_chain c"
  "read_chain (c\<lparr>send_queue := q\<rparr>) = read_chain c"
  "read_chain (c\<lparr>write_outstanding := w\<rparr>) = read_chain c"
  "read_chain (c\<lparr>receiving_message := r\<rparr>) = read_chain c"
  "read_chain (c\<lparr>start_flag := sf\<rparr>) = read_chain c"
  "read_chain (c\<lparr>on_message_received := f\<rparr>) = read_chain c"
  "read_chain (c\<lparr>on_connection_closed := g\<rparr>) = read_chain c"
  "read_chain (emit es c) = read_chain c"
  by (simp_all add: read_chain_def emit_def)

lemma read_chain_inv_run_handler:
  assumes "read_chain_inv (c\<lparr>posted := h # posted c\<rparr>)"
  shows "read_chain_inv (run_handler MaxMessageSize h c)"
proof (cases h)
  case post_DoClose
  then show ?thesis using assms by (simp add: read_chain_inv_def read_chain_def)
next
  case post_ReadSize
  then show ?thesis using assms
    by (auto simp add: read_chain_inv_def read_chain_def ReadSize_def emit_def
        split: option.splits if_splits)
next
  case (post_Send m)
  then show ?thesis using assms by (simp add: read_chain_inv_def read_chain_def)
next
  case (post_on_message_received d)
  then show ?thesis using assms
    by (simp add: read_chain_inv_def read_chain_def emit_def split: option.splits)
qed

lemma read_chain_inv_step:
  assumes "read_chain_inv c"
  shows "read_chain_inv (step MaxMessageSize i c)"
proof (cases i)
  case (call_Start f g t)
  then show ?thesis using assms
    by (auto simp add: read_chain_inv_def read_chain_def Start_def ReadSize_def post_def emit_def
        Let_def split: option.splits if_splits)
next
  case call_Close
  then show ?thesis using assms
    by (simp add: read_chain_inv_def read_chain_def Close_def post_def)
next
  case (call_Send d)
  then show ?thesis using assms
    by (simp add: read_chain_inv_def read_chain_def Send_def post_def split: sum.splits)
next
  case run_posted
  show ?thesis
  proof (cases "posted c")
    case Nil
    then show ?thesis using run_posted assms by simp
  next
    case (Cons h hs)
    have "read_chain_inv ((c\<lparr>posted := hs\<rparr>)\<lparr>posted := h # posted (c\<lparr>posted := hs\<rparr>)\<rparr>)"
      using assms Cons by (simp add: read_chain_inv_def read_chain_def)
    then have "read_chain_inv (run_handler MaxMessageSize h (c\<lparr>posted := hs\<rparr>))"
      by (rule read_chain_inv_run_handler)
    then show ?thesis using run_posted Cons by simp
  qed
next
  case (read_completes ec bytes)
  then show ?thesis using assms
    by (auto simp add: read_chain_inv_def read_chain_def ReadSize_handler_def ReadData_handler_def
        ReadData_def ReadSize_def post_def emit_def Let_def
        split: option.splits read_operation.splits if_splits)
next
  case (write_completes ec)
  then show ?thesis using assms
    by (simp add: read_chain_inv_def DoSend_handler_def Let_def)
qed

lemma read_chain_inv_run: "read_chain_inv c \<Longrightarrow> read_chain_inv (run MaxMessageSize ins c)"
  by (induction ins arbitrary: c) (simp_all add: read_chain_inv_step)

lemma read_chain_inv_new: "read_chain_inv (new_connection\<lparr>socket_is_open := b\<rparr>)"
  by (simp add: read_chain_inv_def read_chain_def new_connection_def)

lemma reads_ended_run_handler:
  assumes "reads_ended (c\<lparr>posted := h # posted c\<rparr>)"
  shows "reads_ended (run_handler MaxMessageSize h c) \<and>
         filter is_read (effects (run_handler MaxMessageSize h c)) = filter is_read (effects c)"
proof (cases h)
  case post_DoClose
  then show ?thesis using assms by (simp add: reads_ended_def read_chain_def)
next
  case post_ReadSize
  then show ?thesis using assms by (simp add: reads_ended_def read_chain_def)
next
  case (post_Send m)
  then show ?thesis using assms by (simp add: reads_ended_def read_chain_def)
next
  case (post_on_message_received d)
  then show ?thesis using assms
    by (simp add: reads_ended_def read_chain_def emit_def split: option.splits)
qed

lemma reads_ended_step:
  assumes "reads_ended c"
  shows "reads_ended (step MaxMessageSize i c) \<and>
         filter is_read (effects (step MaxMessageSize i c)) = filter is_read (effects c)"
proof (cases i)
  case (call_Start f g t)
  then show ?thesis using assms by (simp add: reads_ended_def Start_def)
next
  case call_Close
  then show ?thesis using assms by (simp add: reads_ended_def read_chain_def Close_def post_def)
next
  case (call_Send d)
  then show ?thesis using assms
    by (simp add: reads_ended_def read_chain_def Send_def post_def split: sum.splits)
next
  case run_posted
  show ?thesis
  proof (cases "posted c")
    case Nil
    then show ?thesis using run_posted assms by simp
  next
    case (Cons h hs)
    have "reads_ended ((c\<lparr>posted := hs\<rparr>)\<lparr>posted := h # posted (c\<lparr>posted := hs\<rparr>)\<rparr>)"
      using assms Cons by (simp add: reads_ended_def read_chain_def)
    then have "reads_ended (run_handler MaxMessageSize h (c\<lparr>posted := hs\<rparr>)) \<and>
         filter is_read (effects (run_handler MaxMessageSize h (c\<lparr>posted := hs\<rparr>))) =
         filter is_read (effects (c\<lparr>posted := hs\<rparr>))"
      by (rule reads_ended_run_handler)
    then show ?thesis using run_posted Cons by simp
  qed
next
  case (read_completes ec bytes)
  then show ?thesis using assms
    by (simp add: reads_ended_def read_chain_def split: option.splits)
next
  case (write_completes ec)
  then show ?thesis using assms
    by (simp add: reads_ended_def DoSend_handler_def Let_def)
qed

lemma reads_ended_run:
  "reads_ended c \<Longrightarrow> filter is_read (effects (run MaxMessageSize ins c)) = filter is_read (effects c)"
proof (induction ins arbitrary: c)
  case Nil
  then show ?case by simp
next
  case (Cons i ins)
  then show ?case using reads_ended_step [OF Cons.prems, of MaxMessageSize i] by simp
qed

text \<open>
  Claim C4. On a connection made by either constructor, whatever has happened before
  (\<open>ins\<close>): when the length read completes without error and the four bytes decode to more
  than \<open>MaxMessageSize\<close>, the handler is \<open>DoClose\<close> on the connection with its \<open>data_buffer\<close>
  cleared. The close flag is set and no read is left outstanding; neither then nor after
  anything that follows (\<open>later\<close>) is a read started again, so the reads started are those
  from before and no body read of the oversized length is among them; and if the
  connection was not closed yet, the socket is shut down and closed now.
\<close>

theorem oversized_prefix_closes:
  assumes "c = run MaxMessageSize ins (new_connection\<lparr>socket_is_open := b\<rparr>)"
    and "read_outstanding c = Some reading_size"
    and "length bytes = 4"
    and "unat (decode_size bytes) > MaxMessageSize"
  shows "step MaxMessageSize (read_completes False bytes) c =
           DoClose (c\<lparr>read_outstanding := None,
                      receiving_message := \<lparr>size_buffer = bytes, data_buffer = []\<rparr>\<rparr>)
     \<and> socket_close_flag (step MaxMessageSize (read_completes False bytes) c)
     \<and> data_buffer (receiving_message (step MaxMessageSize (read_completes False bytes) c)) = []
     \<and> read_outstanding (step MaxMessageSize (read_completes False bytes) c) = None
     \<and> filter is_read
           (effects (run MaxMessageSize later (step MaxMessageSize (read_completes False bytes) c))) =
         filter is_read (effects c)
     \<and> (\<not> socket_close_flag c \<longrightarrow>
           \<not> socket_is_open (step MaxMessageSize (read_completes False bytes) c)
         \<and> effects (step MaxMessageSize (read_completes False bytes) c) =
             effects c @ [socket_shutdown_send, socket_close] @
               (case on_connection_closed c of
                  None \<Rightarrow> []
                | Some f \<Rightarrow> [call_on_connection_closed f]))"
proof -
  let ?c' = "step MaxMessageSize (read_completes False bytes) c"
  have now: "?c' = DoClose (c\<lparr>read_outstanding := None,
                      receiving_message := \<lparr>size_buffer = bytes, data_buffer = []\<rparr>\<rparr>)
     \<and> socket_close_flag ?c'
     \<and> data_buffer (receiving_message ?c') = []
     \<and> read_outstanding ?c' = None
     \<and> (\<not> socket_close_flag c \<longrightarrow>
           \<not> socket_is_open ?c'
         \<and> effects ?c' =
             effects c @ [socket_shutdown_send, socket_close] @
               (case on_connection_closed c of
                  None \<Rightarrow> []
                | Some f \<Rightarrow> [call_on_connection_closed f]))"
    using assms(2,3,4)
    by (simp add: ReadSize_handler_def DoClose_def emit_def Let_def split: option.splits)
  have inv: "read_chain_inv c"
    using assms(1) read_chain_inv_new read_chain_inv_run by simp
  have st: "start_flag c \<and> count_list (posted c) post_ReadSize = 0"
    using inv assms(2) by (auto simp add: read_chain_inv_def read_chain_def)
  have c': "?c' = DoClose (c\<lparr>read_outstanding := None,
                      receiving_message := (receiving_message c)
                        \<lparr>size_buffer := bytes, data_buffer := []\<rparr>\<rparr>)"
    using assms(2,3,4) by (simp add: ReadSize_handler_def Let_def)
  have "reads_ended ?c'"
    unfolding c' using st by (simp add: reads_ended_def read_chain_def)
  then have "filter is_read (effects (run MaxMessageSize later ?c')) = filter is_read (effects ?c')"
    by (rule reads_ended_run)
  also have "\<dots> = filter is_read (effects c)"
    unfolding c' by simp
  finally have ever: "filter is_read (effects (run MaxMessageSize later ?c')) =
      filter is_read (effects c)" .
  show ?thesis
    using now ever by blast
qed

theorem oversized_prefix_closes_witness:
  "unat (decode_size [0, 16, 0, 1]) > 1048576
   \<and> effects (step 1048576 (read_completes False [0, 16, 0, 1])
        (run 1048576 [call_Start (Some 7) (Some 8) True]
           (new_connection\<lparr>socket_is_open := True\<rparr>))) =
       [async_read_size, socket_shutdown_send, socket_close, call_on_connection_closed 8]
   \<and> filter is_read (effects (run 1048576
        [call_Start (Some 1) (Some 2) True, run_posted, read_completes False [0, 0, 0, 1]]
        (step 1048576 (read_completes False [0, 16, 0, 1])
           (run 1048576 [call_Start (Some 7) (Some 8) True]
              (new_connection\<lparr>socket_is_open := True\<rparr>))))) =
       [async_read_size]"
proof -
  let ?c = "run 1048576 [call_Start (Some 7) (Some 8) True]
              (new_connection\<lparr>socket_is_open := True\<rparr>)"
  have h2: "read_outstanding ?c = Some reading_size"
    by (simp add: Start_def ReadSize_def emit_def new_connection_def)
  have h3: "length [0, 16, 0, 1 :: byte] = 4" by simp
  have h4: "unat (decode_size [0, 16, 0, 1]) > 1048576"
    by (simp add: decode_size_def)
  have e: "effects ?c = [async_read_size]" "\<not> socket_close_flag ?c"
    "on_connection_closed ?c = Some 8"
    by (simp_all add: Start_def ReadSize_def emit_def new_connection_def)
  note t = oversized_prefix_closes [OF refl h2 h3 h4,
      of "[call_Start (Some 1) (Some 2) True, run_posted, read_completes False [0, 0, 0, 1]]"]
  have ever: "filter is_read (effects (run 1048576
        [call_Start (Some 1) (Some 2) True, run_posted, read_completes False [0, 0, 0, 1]]
        (step 1048576 (read_completes False [0, 16, 0, 1]) ?c))) = filter is_read (effects ?c)"
    using t by blast
  have last: "\<not> socket_close_flag ?c \<longrightarrow>
           \<not> socket_is_open (step 1048576 (read_completes False [0, 16, 0, 1]) ?c)
         \<and> effects (step 1048576 (read_completes False [0, 16, 0, 1]) ?c) =
             effects ?c @ [socket_shutdown_send, socket_close] @
               (case on_connection_closed ?c of
                  None \<Rightarrow> []
                | Some f \<Rightarrow> [call_on_connection_closed f])"
    using t by blast
  show ?thesis
    using last ever h4 e by (simp del: step.simps run.simps)
qed

text \<open>
  Claim C5. \<open>Send\<close> of an empty payload throws \<open>invalid_string_size\<close> and \<open>Send\<close> of a
  payload longer than \<open>MaxMessageSize\<close> throws \<open>ipc_message_too_large\<close>; in both cases the
  connection is exactly as before the call: nothing is posted to the executor, the send
  queue is unchanged and no write is started.
\<close>

theorem Send_rejects_invalid_payload:
  "(data = [] \<longrightarrow> Send MaxMessageSize data c = (Inl invalid_string_size, c))
   \<and> (length data > MaxMessageSize \<longrightarrow>
        Send MaxMessageSize data c = (Inl ipc_message_too_large, c))
   \<and> (data = [] \<or> length data > MaxMessageSize \<longrightarrow>
        step MaxMessageSize (call_Send data) c = c
      \<and> EncodeData MaxMessageSize data \<noteq> Inr \<lparr> send_size_buffer = b, send_data = d \<rparr>)"
  by (auto simp add: Send_def EncodeData_def)

theorem Send_rejects_invalid_payload_witness:
  "Send 4 [] new_connection = (Inl invalid_string_size, new_connection)
   \<and> Send 4 [1, 2, 3, 4, 5] new_connection = (Inl ipc_message_too_large, new_connection)
   \<and> step 4 (call_Send [1, 2, 3, 4, 5]) new_connection = new_connection"
  using Send_rejects_invalid_payload [of "[]" 4 new_connection]
    Send_rejects_invalid_payload [of "[1, 2, 3, 4, 5]" 4 new_connection]
  by simp

text \<open>
  Claim C8. Each constructor throws \<open>invalid_parameter\<close> exactly when the executor's
  thread count is not one, whatever the connection attempts of the dialing one would
  answer; with a thread count of one the plain constructor does not fail at all.
\<close>

theorem constructor_checks_thread_count:
  "(TcpConnection_ctor n = Inl invalid_parameter \<longleftrightarrow> n \<noteq> 1)
   \<and> (TcpConnection_ctor_connect n v6 v4 = Inl invalid_parameter \<longleftrightarrow> n \<noteq> 1)
   \<and> ((\<exists>e. TcpConnection_ctor n = Inl e) \<longleftrightarrow> n \<noteq> 1)
   \<and> TcpConnection_ctor 1 = Inr new_connection"
  by (auto simp add: TcpConnection_ctor_def TcpConnection_ctor_connect_def Let_def)

theorem constructor_checks_thread_count_witness:
  "TcpConnection_ctor 2 = Inl invalid_parameter
   \<and> TcpConnection_ctor_connect 0 (None, True) (None, True) = Inl invalid_parameter
   \<and> TcpConnection_ctor_connect 1 (Some other_asio_error, False) (None, True)
       \<noteq> Inl invalid_parameter"
  using constructor_checks_thread_count [of 2 "(None, True)" "(None, True)"]
    constructor_checks_thread_count [of 0 "(None, True)" "(None, True)"]
    constructor_checks_thread_count [of 1 "(Some other_asio_error, False)" "(None, True)"]
  by simp

subsection \<open>The close path\<close>

lemma close_state_DoClose:
  "close_state (DoClose c) = (if socket_close_flag c then close_state c else after_close c)"
  by (simp add: close_state_def after_close_def DoClose_def emit_def count_defs
      split: option.splits)

lemma close_state_simps [simp]:
  "close_state (post h c) = close_state c"
  "close_state (ReadSize c) = close_state c"
  "close_state (ReadData c) = close_state c"
  "close_state (DoSend c) = close_state c"
  "close_state (Send_handler m c) = close_state c"
  "close_state (c\<lparr>posted := p\<rparr>) = close_state c"
  "close_state (c\<lparr>receiving_message := r\<rparr>) = close_state c"
  "close_state (c\<lparr>read_outstanding := ro\<rparr>) = close_state c"
  "close_state (c\<lparr>write_outstanding := wo\<rparr>) = close_state c"
  "close_state (c\<lparr>send_queue := q\<rparr>) = close_state c"
  "close_state (c\<lparr>start_flag := s\<rparr>) = close_state c"
  "close_state (c\<lparr>on_message_received := f\<rparr>) = close_state c"
  "close_state (c\<lparr>on_connection_closed := g\<rparr>) = close_state c"
  "close_state (emit [throw_bad_function_call] c) = close_state c"
  "close_state (emit [call_on_message_received k d] c) = close_state c"
  by (simp_all add: close_state_def conn_defs count_defs Let_def split: list.splits)

lemma on_connection_closed_simps [simp]:
  "on_connection_closed (post h c) = on_connection_closed c"
  "on_connection_closed (ReadSize c) = on_connection_closed c"
  "on_connection_closed (ReadData c) = on_connection_closed c"
  "on_connection_closed (DoSend c) = on_connection_closed c"
  "on_connection_closed (Send_handler m c) = on_connection_closed c"
  by (simp_all add: conn_defs Let_def split: list.splits)

lemma close_step_same: "close_state c' = close_state c \<Longrightarrow> close_step c c'"
  by (simp add: close_step_def)

lemma close_step_DoClose:
  assumes "close_state c' = close_state c"
    and "on_connection_closed c' = on_connection_closed c"
  shows "close_step c (DoClose c')"
proof (cases "socket_close_flag c'")
  case True
  then show ?thesis
    using assms(1) by (simp add: close_step_def close_state_DoClose)
next
  case False
  moreover have "after_close c' = after_close c" "socket_close_flag c = socket_close_flag c'"
    using assms by (simp_all add: close_state_def after_close_def)
  ultimately show ?thesis
    by (simp add: close_step_def close_state_DoClose)
qed

lemma close_step_run_handler:
  assumes "close_state c' = close_state c"
    and "on_connection_closed c' = on_connection_closed c"
  shows "close_step c (run_handler MaxMessageSize h c')"
  using assms
  by (cases h) (simp_all add: close_step_DoClose close_step_same split: option.splits)

lemma close_step_step: "close_step c (step MaxMessageSize i c)"
proof (cases i)
  case (call_Start f g t)
  then show ?thesis by (simp add: Start_def close_step_same Let_def)
next
  case call_Close
  then show ?thesis by (simp add: Close_def close_step_same)
next
  case (call_Send d)
  then show ?thesis by (simp add: Send_def close_step_same split: sum.splits)
next
  case run_posted
  then show ?thesis by (simp add: close_step_same close_step_run_handler split: list.splits)
next
  case (read_completes ec bytes)
  then show ?thesis
    by (simp add: ReadSize_handler_def ReadData_handler_def Let_def close_step_same
        close_step_DoClose split: option.splits read_operation.splits)
next
  case (write_completes ec)
  then show ?thesis
    by (simp add: DoSend_handler_def Let_def close_step_same close_step_DoClose)
qed

lemma close_inv_step: "close_inv c \<Longrightarrow> close_inv (step MaxMessageSize i c)"
  using close_step_step [of c MaxMessageSize i]
  by (auto simp add: close_inv_def close_step_def close_state_def after_close_def
      split: option.splits if_splits)

lemma close_inv_run: "close_inv c \<Longrightarrow> close_inv (run MaxMessageSize ins c)"
  by (induction ins arbitrary: c) (simp_all add: close_inv_step)

lemma close_inv_new: "close_inv (new_connection\<lparr>socket_is_open := b\<rparr>)"
  by (simp add: close_inv_def new_connection_def count_defs)

lemma closed_step:
  "socket_close_flag c \<Longrightarrow> close_state (step MaxMessageSize i c) = close_state c"
  using close_step_step [of c MaxMessageSize i] by (simp add: close_step_def)

lemma closed_run:
  "socket_close_flag c \<Longrightarrow> close_state (run MaxMessageSize ins c) = close_state c"
proof (induction ins arbitrary: c)
  case Nil
  then show ?case by simp
next
  case (Cons i ins)
  have same: "close_state (step MaxMessageSize i c) = close_state c"
    using Cons.prems by (rule closed_step)
  then have "socket_close_flag (step MaxMessageSize i c)"
    using Cons.prems by (simp add: close_state_def)
  then show ?case
    using Cons.IH same by simp
qed

lemma unstarted_simps [simp]:
  "unstarted (post h c) = unstarted c"
  "unstarted (ReadSize c) = unstarted c"
  "unstarted (ReadData c) = unstarted c"
  "unstarted (DoSend c) = unstarted c"
  "unstarted (Send_handler m c) = unstarted c"
  "unstarted (c\<lparr>posted := p\<rparr>) = unstarted c"
  "unstarted (c\<lparr>receiving_message := r\<rparr>) = unstarted c"
  "unstarted (c\<lparr>read_outstanding := ro\<rparr>) = unstarted c"
  "unstarted (c\<lparr>write_outstanding := wo\<rparr>) = unstarted c"
  "unstarted (c\<lparr>send_queue := q\<rparr>) = unstarted c"
  by (simp_all add: unstarted_def conn_defs Let_def split: list.splits)

lemma unstarted_DoClose: "unstarted c \<Longrightarrow> unstarted (DoClose c)"
  by (simp add: unstarted_def DoClose_def emit_def)

lemma unstarted_run_handler: "unstarted c \<Longrightarrow> unstarted (run_handler MaxMessageSize h c)"
  by (cases h) (simp_all add: unstarted_DoClose, simp add: unstarted_def emit_def)

lemma unstarted_step:
  assumes "unstarted c" and "\<not> is_call_Start i"
  shows "unstarted (step MaxMessageSize i c)"
proof (cases i)
  case (call_Start f g t)
  then show ?thesis using assms(2) by simp
next
  case call_Close
  then show ?thesis using assms(1) by (simp add: Close_def)
next
  case (call_Send d)
  then show ?thesis using assms(1) by (simp add: Send_def split: sum.splits)
next
  case run_posted
  then show ?thesis using assms(1) by (simp add: unstarted_run_handler split: list.splits)
next
  case (read_completes ec bytes)
  then show ?thesis
    using assms(1)
    by (simp add: ReadSize_handler_def ReadData_handler_def Let_def unstarted_DoClose
        split: option.splits read_operation.splits)
next
  case (write_completes ec)
  then show ?thesis
    using assms(1) by (simp add: DoSend_handler_def Let_def unstarted_DoClose)
qed

lemma unstarted_run:
  "unstarted c \<Longrightarrow> \<forall>i\<in>set ins. \<not> is_call_Start i \<Longrightarrow> unstarted (run MaxMessageSize ins c)"
  by (induction ins arbitrary: c) (simp_all add: unstarted_step)

lemma unstarted_new: "unstarted (new_connection\<lparr>socket_is_open := b\<rparr>)"
  by (simp add: unstarted_def new_connection_def)

lemma closed_from_cong:
  "close_state c' = close_state c \<Longrightarrow> on_connection_closed c' = on_connection_closed c \<Longrightarrow>
     closed_from c' = closed_from c"
  by (simp add: closed_from_def close_state_def after_close_def)

lemma close_state_DoClose_from:
  "close_state c' = close_state c \<Longrightarrow> on_connection_closed c' = on_connection_closed c \<Longrightarrow>
     close_state (DoClose c') = closed_from c"
  using closed_from_cong [of c' c] by (simp add: close_state_DoClose closed_from_def)

lemma closes_connection_step:
  assumes "closes_connection MaxMessageSize i c"
  shows "close_state (step MaxMessageSize i c) = closed_from c"
proof (cases i)
  case (call_Start f g t)
  then show ?thesis using assms by simp
next
  case call_Close
  then show ?thesis using assms by simp
next
  case (call_Send d)
  then show ?thesis using assms by simp
next
  case run_posted
  then show ?thesis using assms
    by (auto simp add: close_state_DoClose_from split: list.splits handler.splits)
next
  case (read_completes ec bytes)
  then show ?thesis using assms
    by (auto simp add: ReadSize_handler_def ReadData_handler_def Let_def close_state_DoClose_from
        split: option.splits read_operation.splits)
next
  case (write_completes ec)
  then show ?thesis using assms
    by (simp add: DoSend_handler_def close_state_DoClose_from)
qed

lemma not_closes_connection_step:
  assumes "\<not> closes_connection MaxMessageSize i c"
  shows "close_state (step MaxMessageSize i c) = close_state c"
proof (cases i)
  case (call_Start f g t)
  then show ?thesis by (simp add: Start_def Let_def)
next
  case call_Close
  then show ?thesis by (simp add: Close_def)
next
  case (call_Send d)
  then show ?thesis by (simp add: Send_def split: sum.splits)
next
  case run_posted
  show ?thesis
  proof (cases "posted c")
    case Nil
    then show ?thesis using run_posted by simp
  next
    case (Cons h hs)
    then have "h \<noteq> post_DoClose"
      using assms run_posted by auto
    then show ?thesis using run_posted Cons
      by (cases h) (simp_all split: option.splits)
  qed
next
  case (read_completes ec bytes)
  then show ?thesis using assms
    by (auto simp add: ReadSize_handler_def ReadData_handler_def Let_def
        split: option.splits read_operation.splits)
next
  case (write_completes ec)
  then show ?thesis using assms
    by (auto simp add: DoSend_handler_def Let_def)
qed

lemma close_flag_closed_from: "fst (closed_from c)"
  by (simp add: closed_from_def close_state_def after_close_def)

lemma closed_from_run:
  assumes "close_state c' = closed_from c"
  shows "close_state (run MaxMessageSize later c') = closed_from c"
proof -
  have "fst (close_state c')"
    using assms close_flag_closed_from [of c] by simp
  then have "socket_close_flag c'"
    by (simp add: close_state_def)
  then show ?thesis
    using closed_run assms by simp
qed

lemma on_connection_closed_step:
  "\<not> is_call_Start i \<Longrightarrow>
     on_connection_closed (step MaxMessageSize i c) = on_connection_closed c"
proof (cases i)
  case run_posted
  show ?thesis
  proof (cases "posted c")
    case Nil
    then show ?thesis using run_posted by simp
  next
    case (Cons h hs)
    then show ?thesis using run_posted
      by (cases h) (simp_all add: DoClose_def emit_def Let_def split: option.splits)
  qed
next
  case (read_completes ec bytes)
  then show ?thesis
    by (simp add: ReadSize_handler_def ReadData_handler_def Let_def DoClose_def emit_def
        ReadData_def ReadSize_def post_def
        split: option.splits read_operation.splits)
next
  case (write_completes ec)
  then show ?thesis
    by (simp add: DoSend_handler_def Let_def DoClose_def emit_def split: option.splits)
qed (simp_all add: Close_def Send_def post_def split: sum.splits)

lemma posted_run_handler [simp]: "posted (run_handler MaxMessageSize h c) = posted c"
  by (cases h) (simp_all add: ReadSize_def emit_def split: option.splits)

lemma flag_step: "socket_close_flag c \<Longrightarrow> socket_close_flag (step MaxMessageSize i c)"
  using closed_step [of c MaxMessageSize i] by (simp add: close_state_def)

lemma flag_run: "socket_close_flag c \<Longrightarrow> socket_close_flag (run MaxMessageSize ins c)"
  by (induction ins arbitrary: c) (simp_all add: flag_step)

lemma drain_closes:
  "posted c = hs \<Longrightarrow> post_DoClose \<in> set hs \<Longrightarrow>
     close_state (run MaxMessageSize (replicate (length hs) run_posted) c) = closed_from c"
proof (induction hs arbitrary: c)
  case Nil
  then show ?case by simp
next
  case (Cons h hs)
  let ?c1 = "step MaxMessageSize run_posted c"
  have p1: "posted ?c1 = hs"
    using Cons.prems(1) by simp
  show ?case
  proof (cases "h = post_DoClose")
    case True
    then have "closes_connection MaxMessageSize run_posted c"
      using Cons.prems(1) by simp
    then have "close_state ?c1 = closed_from c"
      by (rule closes_connection_step)
    then have "close_state (run MaxMessageSize (replicate (length hs) run_posted) ?c1) = closed_from c"
      by (rule closed_from_run)
    then show ?thesis by simp
  next
    case False
    then have n: "\<not> closes_connection MaxMessageSize run_posted c"
      using Cons.prems(1) by (cases h) simp_all
    have same: "close_state ?c1 = close_state c"
      using n by (rule not_closes_connection_step)
    have occ: "on_connection_closed ?c1 = on_connection_closed c"
      by (rule on_connection_closed_step) simp
    have "post_DoClose \<in> set hs"
      using Cons.prems(2) False by auto
    then have "close_state (run MaxMessageSize (replicate (length hs) run_posted) ?c1) = closed_from ?c1"
      using Cons.IH [OF p1] by simp
    then show ?thesis
      using closed_from_cong [OF same occ] by simp
  qed
qed

lemma Close_drained:
  "close_state (run MaxMessageSize later (drain MaxMessageSize (step MaxMessageSize call_Close c))) =
     closed_from c"
proof -
  let ?c1 = "step MaxMessageSize call_Close c"
  have "close_state ?c1 = close_state c" "on_connection_closed ?c1 = on_connection_closed c"
    by (simp_all add: Close_def)
  then have cf: "closed_from ?c1 = closed_from c"
    by (rule closed_from_cong)
  have "post_DoClose \<in> set (posted ?c1)"
    by (simp add: Close_def post_def)
  then have "close_state (drain MaxMessageSize ?c1) = closed_from ?c1"
    unfolding drain_def using drain_closes [OF refl] by blast
  then show ?thesis
    using closed_from_run cf by simp
qed

lemma closed_from_counts:
  assumes "close_inv c"
  shows "closed_from c =
     (True, 1, 1,
      if socket_close_flag c then closed_callbacks c
      else (case on_connection_closed c of None \<Rightarrow> 0 | Some f \<Rightarrow> 1))"
  using assms
  by (auto simp add: closed_from_def close_inv_def close_state_def after_close_def
      split: if_splits)

lemma close_state_counts:
  assumes "close_state c' = (True, 1, 1, n)"
  shows "socket_close_flag c' \<and> shutdowns c' = 1 \<and> socket_closes c' = 1
     \<and> closed_callbacks c' = n"
  using assms by (simp add: close_state_def)

text \<open>
  Claim C6, amended. On a connection made by either constructor, whatever calls, handler
  runs and completions have happened (\<open>ins\<close>): the socket has been shut down and closed at
  most once each and the closed callback invoked at most once. Every input that takes the
  close path (the executor running a posted \<open>DoClose\<close>, a failed read, an oversized length
  prefix, a failed write) sets the close flag, and so does a \<open>Close\<close> call once the executor
  has run what is posted; from then on, whatever follows (\<open>later\<close>: further \<open>Close\<close> calls,
  failed reads and writes, a late \<open>Start\<close>), the shutdown and the close have happened exactly
  once, and the closed callback has been invoked exactly once if a non-empty callback was
  registered when the connection was first closed, and not at all otherwise. No other
  input changes the flag or these counts. The same holds of \<open>DoClose\<close> applied directly.
\<close>

theorem close_sequence_once:
  fixes ins later :: "input list"
  assumes "c = run MaxMessageSize ins (new_connection\<lparr>socket_is_open := b\<rparr>)"
  shows "closed_callbacks c \<le> 1 \<and> shutdowns c \<le> 1 \<and> socket_closes c \<le> 1
     \<and> (socket_close_flag c \<longrightarrow> shutdowns c = 1 \<and> socket_closes c = 1)
     \<and> (\<not> socket_close_flag c \<longrightarrow>
          shutdowns (run MaxMessageSize later (DoClose c)) = 1
        \<and> socket_closes (run MaxMessageSize later (DoClose c)) = 1
        \<and> closed_callbacks (run MaxMessageSize later (DoClose c)) =
            (case on_connection_closed c of None \<Rightarrow> 0 | Some f \<Rightarrow> 1))
     \<and> (closes_connection MaxMessageSize i c \<longrightarrow>
          socket_close_flag (run MaxMessageSize later (step MaxMessageSize i c))
        \<and> shutdowns (run MaxMessageSize later (step MaxMessageSize i c)) = 1
        \<and> socket_closes (run MaxMessageSize later (step MaxMessageSize i c)) = 1
        \<and> closed_callbacks (run MaxMessageSize later (step MaxMessageSize i c)) =
            (if socket_close_flag c then closed_callbacks c
             else (case on_connection_closed c of None \<Rightarrow> 0 | Some f \<Rightarrow> 1)))
     \<and> (\<not> closes_connection MaxMessageSize i c \<longrightarrow>
          socket_close_flag (step MaxMessageSize i c) = socket_close_flag c
        \<and> shutdowns (step MaxMessageSize i c) = shutdowns c
        \<and> socket_closes (step MaxMessageSize i c) = socket_closes c
        \<and> closed_callbacks (step MaxMessageSize i c) = closed_callbacks c)
     \<and> socket_close_flag
          (run MaxMessageSize later (drain MaxMessageSize (step MaxMessageSize call_Close c)))
     \<and> shutdowns
          (run MaxMessageSize later (drain MaxMessageSize (step MaxMessageSize call_Close c))) = 1
     \<and> socket_closes
          (run MaxMessageSize later (drain MaxMessageSize (step MaxMessageSize call_Close c))) = 1
     \<and> closed_callbacks
          (run MaxMessageSize later (drain MaxMessageSize (step MaxMessageSize call_Close c))) =
          (if socket_close_flag c then closed_callbacks c
           else (case on_connection_closed c of None \<Rightarrow> 0 | Some f \<Rightarrow> 1))"
proof -
  let ?n = "if socket_close_flag c then closed_callbacks c
            else (case on_connection_closed c of None \<Rightarrow> 0 | Some f \<Rightarrow> 1)"
  have inv: "close_inv c"
    using assms close_inv_new close_inv_run by simp
  have from_: "closed_from c = (True, 1, 1, ?n)"
    using inv by (rule closed_from_counts)
  have bounds: "closed_callbacks c \<le> 1 \<and> shutdowns c \<le> 1 \<and> socket_closes c \<le> 1
     \<and> (socket_close_flag c \<longrightarrow> shutdowns c = 1 \<and> socket_closes c = 1)"
    using inv by (simp add: close_inv_def split: if_splits)
  have by_hand: "shutdowns (run MaxMessageSize later (DoClose c)) = 1
        \<and> socket_closes (run MaxMessageSize later (DoClose c)) = 1
        \<and> closed_callbacks (run MaxMessageSize later (DoClose c)) =
            (case on_connection_closed c of None \<Rightarrow> 0 | Some f \<Rightarrow> 1)"
    if not_closed: "\<not> socket_close_flag c"
  proof -
    have "close_state (DoClose c) = closed_from c"
      by (simp add: close_state_DoClose_from)
    then have "close_state (run MaxMessageSize later (DoClose c)) = closed_from c"
      by (rule closed_from_run)
    then show ?thesis
      using close_state_counts [of "run MaxMessageSize later (DoClose c)" ?n] from_ not_closed
      by simp
  qed
  have trigger: "socket_close_flag (run MaxMessageSize later (step MaxMessageSize i c))
        \<and> shutdowns (run MaxMessageSize later (step MaxMessageSize i c)) = 1
        \<and> socket_closes (run MaxMessageSize later (step MaxMessageSize i c)) = 1
        \<and> closed_callbacks (run MaxMessageSize later (step MaxMessageSize i c)) = ?n"
    if t: "closes_connection MaxMessageSize i c"
  proof -
    have "close_state (step MaxMessageSize i c) = closed_from c"
      using t by (rule closes_connection_step)
    then have "close_state (run MaxMessageSize later (step MaxMessageSize i c)) = closed_from c"
      by (rule closed_from_run)
    then show ?thesis
      using close_state_counts [of "run MaxMessageSize later (step MaxMessageSize i c)" ?n] from_
      by simp
  qed
  have other: "socket_close_flag (step MaxMessageSize i c) = socket_close_flag c
        \<and> shutdowns (step MaxMessageSize i c) = shutdowns c
        \<and> socket_closes (step MaxMessageSize i c) = socket_closes c
        \<and> closed_callbacks (step MaxMessageSize i c) = closed_callbacks c"
    if n: "\<not> closes_connection MaxMessageSize i c"
    using not_closes_connection_step [OF n] by (simp add: close_state_def)
  have "close_state
          (run MaxMessageSize later (drain MaxMessageSize (step MaxMessageSize call_Close c))) =
        closed_from c"
    by (rule Close_drained)
  then have close_call: "socket_close_flag
          (run MaxMessageSize later (drain MaxMessageSize (step MaxMessageSize call_Close c)))
     \<and> shutdowns
          (run MaxMessageSize later (drain MaxMessageSize (step MaxMessageSize call_Close c))) = 1
     \<and> socket_closes
          (run MaxMessageSize later (drain MaxMessageSize (step MaxMessageSize call_Close c))) = 1
     \<and> closed_callbacks
          (run MaxMessageSize later (drain MaxMessageSize (step MaxMessageSize call_Close c))) = ?n"
    using close_state_counts
      [of "run MaxMessageSize later (drain MaxMessageSize (step MaxMessageSize call_Close c))" ?n]
      from_ by simp
  show ?thesis
    using bounds by_hand trigger other close_call by blast
qed

theorem close_sequence_once_witness:
  "closed_callbacks
     (run 1024 [run_posted, read_completes True []]
        (step 1024 run_posted
           (run 1024 [call_Start (Some 7) (Some 8) True, call_Close, call_Close]
              (new_connection\<lparr>socket_is_open := True\<rparr>)))) = 1
   \<and> closed_callbacks
     (run 1024 [run_posted, run_posted]
        (step 1024 (read_completes True [])
           (run 1024 [call_Start (Some 7) (Some 8) True, call_Close, call_Close]
              (new_connection\<lparr>socket_is_open := True\<rparr>)))) = 1
   \<and> closed_callbacks
     (run 1024 [call_Close, run_posted]
        (drain 1024 (step 1024 call_Close
           (run 1024 [call_Start (Some 7) (Some 8) True, call_Close, call_Close]
              (new_connection\<lparr>socket_is_open := True\<rparr>))))) = 1
   \<and> closed_callbacks
     (step 1024 (call_Send [1])
        (run 1024 [call_Start (Some 7) (Some 8) True, call_Close, call_Close]
           (new_connection\<lparr>socket_is_open := True\<rparr>))) = 0"
proof -
  let ?c = "run 1024 [call_Start (Some 7) (Some 8) True, call_Close, call_Close]
              (new_connection\<lparr>socket_is_open := True\<rparr>)"
  have f: "\<not> socket_close_flag ?c" "on_connection_closed ?c = Some 8"
    "closed_callbacks ?c = 0"
    by (simp_all add: Start_def Close_def ReadSize_def post_def emit_def new_connection_def
        closed_callbacks_def)
  have t1: "closes_connection 1024 run_posted ?c"
    by (simp add: Start_def Close_def ReadSize_def post_def emit_def new_connection_def)
  have t2: "closes_connection 1024 (read_completes True []) ?c"
    by (simp add: Start_def Close_def ReadSize_def post_def emit_def new_connection_def)
  have t3: "\<not> closes_connection 1024 (call_Send [1]) ?c"
    by simp
  have a: "closed_callbacks (run 1024 [run_posted, read_completes True []]
              (step 1024 run_posted ?c)) =
           (if socket_close_flag ?c then closed_callbacks ?c
            else (case on_connection_closed ?c of None \<Rightarrow> 0 | Some f \<Rightarrow> 1))"
    using close_sequence_once [OF refl, where MaxMessageSize = 1024 and ins = "[call_Start (Some 7) (Some 8) True, call_Close, call_Close]"
        and b = True and i = run_posted and later = "[run_posted, read_completes True []]"] t1 by blast
  have b: "closed_callbacks (run 1024 [run_posted, run_posted]
              (step 1024 (read_completes True []) ?c)) =
           (if socket_close_flag ?c then closed_callbacks ?c
            else (case on_connection_closed ?c of None \<Rightarrow> 0 | Some f \<Rightarrow> 1))"
    using close_sequence_once [OF refl, where MaxMessageSize = 1024 and ins = "[call_Start (Some 7) (Some 8) True, call_Close, call_Close]"
        and b = True and i = "read_completes True []" and later = "[run_posted, run_posted]"] t2 by blast
  have d: "closed_callbacks (run 1024 [call_Close, run_posted]
              (drain 1024 (step 1024 call_Close ?c))) =
           (if socket_close_flag ?c then closed_callbacks ?c
            else (case on_connection_closed ?c of None \<Rightarrow> 0 | Some f \<Rightarrow> 1))"
    using close_sequence_once [OF refl, where MaxMessageSize = 1024 and ins = "[call_Start (Some 7) (Some 8) True, call_Close, call_Close]"
        and b = True and i = run_posted and later = "[call_Close, run_posted]"]
    by blast
  have e: "closed_callbacks (step 1024 (call_Send [1]) ?c) = closed_callbacks ?c"
    using close_sequence_once [OF refl, where MaxMessageSize = 1024 and ins = "[call_Start (Some 7) (Some 8) True, call_Close, call_Close]"
        and b = True and i = "call_Send [1]" and later = "[]"] t3 by blast
  show ?thesis
    using a b d e f by (simp del: run.simps step.simps)
qed

text \<open>
  Claim C6 as stated fails on a connection that was never started: two \<open>Close\<close> calls, or a
  failed write, run the shutdown sequence, and the closed callback is invoked zero times.
\<close>

theorem closed_callback_exactly_once_counterexample:
  "TcpConnection_ctor 1 = Inr new_connection
   \<and> effects (run 1024 [call_Close, call_Close, run_posted, run_posted] new_connection) =
       [socket_shutdown_send, socket_close]
   \<and> closed_callbacks (run 1024 [call_Close, call_Close, run_posted, run_posted] new_connection)
       \<noteq> 1
   \<and> effects (run 1024 [call_Send [1], run_posted, write_completes True] new_connection) =
       [async_write [0, 0, 0, 1] [1], socket_shutdown_send, socket_close]
   \<and> closed_callbacks (run 1024 [call_Send [1], run_posted, write_completes True] new_connection)
       \<noteq> 1"
proof -
  have enc: "EncodeData 1024 [1] = Inr \<lparr> send_size_buffer = [0, 0, 0, 1], send_data = [1] \<rparr>"
    by (simp add: EncodeData_valid drop_bit_eq_div)
  show ?thesis
    by (simp add: TcpConnection_ctor_def conn_defs count_defs new_connection_def enc)
qed

text \<open>
  Claim C10. On a connection on which \<open>Start\<close> was never called, whatever else has happened,
  \<open>DoClose\<close> invokes no callback; if the connection was not closed before, it shuts down
  and closes the socket.
\<close>

theorem DoClose_before_Start_invokes_no_callback:
  assumes "\<forall>i\<in>set ins. \<not> is_call_Start i"
    and "c = run MaxMessageSize ins (new_connection\<lparr>socket_is_open := b\<rparr>)"
  shows "filter is_callback (effects (DoClose c)) = []
     \<and> (\<not> socket_close_flag c \<longrightarrow>
           effects (DoClose c) = effects c @ [socket_shutdown_send, socket_close]
         \<and> \<not> socket_is_open (DoClose c) \<and> socket_close_flag (DoClose c))"
proof -
  have u: "unstarted c"
    using assms unstarted_new unstarted_run by simp
  then have "unstarted (DoClose c)"
    by (rule unstarted_DoClose)
  then have "filter is_callback (effects (DoClose c)) = []"
    by (simp add: unstarted_def)
  moreover have "effects (DoClose c) = effects c @ [socket_shutdown_send, socket_close]
         \<and> \<not> socket_is_open (DoClose c) \<and> socket_close_flag (DoClose c)"
    if "\<not> socket_close_flag c"
    using u that by (simp add: unstarted_def DoClose_def emit_def)
  ultimately show ?thesis by blast
qed

theorem DoClose_before_Start_invokes_no_callback_witness:
  "effects (DoClose (run 1024 [call_Send [1], run_posted]
                 (new_connection\<lparr>socket_is_open := True\<rparr>))) =
       [async_write [0, 0, 0, 1] [1], socket_shutdown_send, socket_close]
   \<and> \<not> socket_is_open (DoClose (run 1024 [call_Send [1], run_posted]
                 (new_connection\<lparr>socket_is_open := True\<rparr>)))"
proof -
  let ?c = "run 1024 [call_Send [1], run_posted] (new_connection\<lparr>socket_is_open := True\<rparr>)"
  have h: "\<forall>i\<in>set [call_Send [1], run_posted]. \<not> is_call_Start i" by simp
  have enc: "EncodeData 1024 [1] = Inr \<lparr> send_size_buffer = [0, 0, 0, 1], send_data = [1] \<rparr>"
    by (simp add: EncodeData_valid drop_bit_eq_div)
  have f: "\<not> socket_close_flag ?c" "effects ?c = [async_write [0, 0, 0, 1] [1]]"
    by (simp_all add: conn_defs new_connection_def enc)
  show ?thesis
    using DoClose_before_Start_invokes_no_callback [OF h refl, of 1024 True] f h
    by (simp del: run.simps)
qed

subsection \<open>Sending and receiving: every payload arrives once, in order\<close>

lemma written_append [simp]: "written (xs @ ys) = written xs @ written ys"
  by (induction xs rule: written.induct) simp_all

lemma posted_sends_append [simp]: "posted_sends (xs @ ys) = posted_sends xs @ posted_sends ys"
  by (induction xs rule: posted_sends.induct) simp_all


lemma written_DoClose [simp]: "written (effects (DoClose c)) = written (effects c)"
  by (simp add: DoClose_def emit_def Let_def split: option.splits)

lemma send_queue_DoClose [simp]: "send_queue (DoClose c) = send_queue c"
  by (simp add: DoClose_def emit_def Let_def split: option.splits)

lemma write_outstanding_DoClose [simp]: "write_outstanding (DoClose c) = write_outstanding c"
  by (simp add: DoClose_def emit_def Let_def split: option.splits)

lemma pipeline_DoClose [simp]: "pipeline (DoClose c) = pipeline c"
  by (simp add: pipeline_def)

lemma pipeline_simps [simp]:
  "pipeline (c\<lparr>read_outstanding := ro\<rparr>) = pipeline c"
  "pipeline (c\<lparr>write_outstanding := wo\<rparr>) = pipeline c"
  "pipeline (c\<lparr>receiving_message := r\<rparr>) = pipeline c"
  "pipeline (c\<lparr>start_flag := sf\<rparr>) = pipeline c"
  "pipeline (c\<lparr>on_message_received := f\<rparr>) = pipeline c"
  "pipeline (c\<lparr>on_connection_closed := g\<rparr>) = pipeline c"
  "pipeline (ReadSize c) = pipeline c"
  "pipeline (ReadData c) = pipeline c"
  by (simp_all add: pipeline_def ReadSize_def ReadData_def emit_def)




lemma sent_frames_replicate [simp]:
  "sent_frames mx (replicate n run_posted) = []"
  "sent_frames mx (replicate n (write_completes ec)) = []"
  by (induction n) simp_all


lemma sending_ok_simps [simp]:
  "sending_ok (DoClose c) = sending_ok c"
  "sending_ok (ReadSize c) = sending_ok c"
  "sending_ok (ReadData c) = sending_ok c"
  "sending_ok (post h c) = sending_ok c"
  "sending_ok (c\<lparr>posted := p\<rparr>) = sending_ok c"
  "sending_ok (c\<lparr>read_outstanding := ro\<rparr>) = sending_ok c"
  "sending_ok (c\<lparr>receiving_message := r\<rparr>) = sending_ok c"
  "sending_ok (c\<lparr>start_flag := sf\<rparr>) = sending_ok c"
  "sending_ok (c\<lparr>on_message_received := f\<rparr>) = sending_ok c"
  "sending_ok (c\<lparr>on_connection_closed := g\<rparr>) = sending_ok c"
  "sending_ok (emit es c) = sending_ok c"
  by (simp_all add: sending_ok_def ReadSize_def ReadData_def post_def emit_def)















section \<open>Properties of SharedMemoryCommunication\<close>

lemma takeWhile_replicate_nonzero:
  "x \<noteq> (0::byte) \<Longrightarrow>
     takeWhile (\<lambda>b. b \<noteq> 0) (replicate n x @ ys) = replicate n x @ takeWhile (\<lambda>b. b \<noteq> 0) ys"
  by (induction n) simp_all

lemmas shm_defs = SharedMemoryCommunication_ctor_def DecideDeletion_def
  shared_memory_object_ctor_def DecideTruncate_def CreateQueue_def update_object_def

text \<open>
  Claim C2, amended. Constructing a creator with a non-empty notifier and a name whose C
  string the system accepts succeeds, whatever shared-memory objects exist: the
  constructor first deletes any object known under that C string and then creates a fresh
  one exclusively; afterwards the C string denotes the object this creator built, sized
  for the queue and with the queue constructed in it, and every other object is as
  before. With a name the system refuses the constructor throws, after the deletion; with
  an empty notifier the assertion fails and nothing is touched.
\<close>

theorem creator_replaces_existing_region:
  "(accepts_name os (c_string name) \<longrightarrow>
      fst (SharedMemoryCommunication_ctor queue_size SharedMemoryCreateOnly name (Some f) os) =
        Inr \<lparr> shared_memory_name = name, creation_tag = SharedMemoryCreateOnly,
              mapped_object = next_object_id os, message_notifier = f, receive_flag = True \<rparr>
    \<and> objects (snd (SharedMemoryCommunication_ctor queue_size SharedMemoryCreateOnly name
          (Some f) os)) =
        (objects os)(c_string name \<mapsto>
          \<lparr> object_id = next_object_id os, object_size = queue_size,
            queue_constructed = True \<rparr>)
    \<and> next_object_id (snd (SharedMemoryCommunication_ctor queue_size SharedMemoryCreateOnly
          name (Some f) os)) = Suc (next_object_id os))
   \<and> (\<not> accepts_name os (c_string name) \<longrightarrow>
        SharedMemoryCommunication_ctor queue_size SharedMemoryCreateOnly name (Some f) os =
          (Inl interprocess_error, os\<lparr>objects := (objects os)(c_string name := None)\<rparr>))
   \<and> SharedMemoryCommunication_ctor queue_size SharedMemoryCreateOnly name None os =
        (Inl assertion_failed, os)"
  by (simp add: shm_defs Let_def)

theorem creator_replaces_existing_region_witness:
  "fst (SharedMemoryCommunication_ctor 100 SharedMemoryCreateOnly (replicate 64 77) (Some 5)
         \<lparr> accepts_name = (\<lambda>name. name \<noteq> [] \<and> 47 \<notin> set name),
           objects = [replicate 64 77 \<mapsto> \<lparr> object_id = 3, object_size = 100,
                                           queue_constructed = True \<rparr>],
           next_object_id = 4 \<rparr>) =
     Inr \<lparr> shared_memory_name = replicate 64 77, creation_tag = SharedMemoryCreateOnly,
           mapped_object = 4, message_notifier = 5, receive_flag = True \<rparr>
   \<and> SharedMemoryCommunication_ctor 100 SharedMemoryCreateOnly (0 # replicate 63 77) (Some 5)
       no_shared_memory =
       (Inl interprocess_error, no_shared_memory)"
proof -
  let ?os = "\<lparr> accepts_name = (\<lambda>name. name \<noteq> [] \<and> 47 \<notin> set name),
           objects = [replicate 64 77 \<mapsto> \<lparr> object_id = 3, object_size = 100,
                                           queue_constructed = True \<rparr>],
           next_object_id = 4 \<rparr>"
  have c: "c_string (replicate 64 77) = replicate 64 77" "c_string (0 # replicate 63 77) = []"
    using takeWhile_replicate_nonzero [of 77 64 "[]"] by (simp_all add: c_string_def)
  have a: "accepts_name ?os (c_string (replicate 64 77))"
    unfolding c by simp
  have r: "\<not> accepts_name no_shared_memory (c_string (0 # replicate 63 77))"
    unfolding c by (simp add: no_shared_memory_def)
  show ?thesis
    using creator_replaces_existing_region [of ?os "replicate 64 77" 100 5] a
      creator_replaces_existing_region [of no_shared_memory "0 # replicate 63 77" 100 5] r
    unfolding c by (simp add: no_shared_memory_def)
qed

text \<open>
  Claim C2 as stated fails: of two creators constructed one after the other with the same
  64-byte name, starting with no shared memory at all, both succeed, and the name ends up
  denoting the object of the second one, not of the first.
\<close>

theorem two_creators_counterexample:
  "fst (SharedMemoryCommunication_ctor 100 SharedMemoryCreateOnly (replicate 64 77) (Some 5)
         no_shared_memory) =
     Inr \<lparr> shared_memory_name = replicate 64 77, creation_tag = SharedMemoryCreateOnly,
           mapped_object = 0, message_notifier = 5, receive_flag = True \<rparr>
   \<and> objects (snd (SharedMemoryCommunication_ctor 100 SharedMemoryCreateOnly (replicate 64 77)
         (Some 5) no_shared_memory)) (replicate 64 77) =
       Some \<lparr> object_id = 0, object_size = 100, queue_constructed = True \<rparr>
   \<and> fst (SharedMemoryCommunication_ctor 100 SharedMemoryCreateOnly (replicate 64 77) (Some 6)
         (snd (SharedMemoryCommunication_ctor 100 SharedMemoryCreateOnly (replicate 64 77)
            (Some 5) no_shared_memory))) =
     Inr \<lparr> shared_memory_name = replicate 64 77, creation_tag = SharedMemoryCreateOnly,
           mapped_object = 1, message_notifier = 6, receive_flag = True \<rparr>
   \<and> objects (snd (SharedMemoryCommunication_ctor 100 SharedMemoryCreateOnly (replicate 64 77)
         (Some 6)
         (snd (SharedMemoryCommunication_ctor 100 SharedMemoryCreateOnly (replicate 64 77)
            (Some 5) no_shared_memory)))) (replicate 64 77) =
       Some \<lparr> object_id = 1, object_size = 100, queue_constructed = True \<rparr>"
proof -
  have c: "c_string (replicate 64 77) = replicate 64 77"
    using takeWhile_replicate_nonzero [of 77 64 "[]"] by (simp add: c_string_def)
  show ?thesis
    by (simp add: shm_defs Let_def no_shared_memory_def c)
qed

text \<open>
  Claim C7. \<open>PushMessage\<close> of a message longer than \<open>kMessageSize\<close> returns false, without
  throwing and with the queue as it was; for a message of at most \<open>kMessageSize\<close> bytes it is
  the call of \<open>Push\<close> on the queue and the message.
\<close>

theorem PushMessage_checks_size:
  "(length message > kMessageSize \<longrightarrow>
      PushMessage kMessageSize Push message message_queue = (Inr False, message_queue))
   \<and> (length message \<le> kMessageSize \<longrightarrow>
      PushMessage kMessageSize Push message message_queue = Push message_queue message)"
  by (simp add: PushMessage_def)

theorem PushMessage_checks_size_witness:
  "PushMessage 4 (\<lambda>q m. (Inr True, q @ [m])) [1, 2, 3, 4, 5] [[9]] = (Inr False, [[9]])
   \<and> PushMessage 4 (\<lambda>q m. (Inr True, q @ [m])) [1, 2, 3, 4] [[9]] =
       (Inr True, [[9], [1, 2, 3, 4]])"
  using PushMessage_checks_size [of 4 "[1, 2, 3, 4, 5]" "\<lambda>q m. (Inr True, q @ [m])" "[[9]]"]
    PushMessage_checks_size [of 4 "[1, 2, 3, 4]" "\<lambda>q m. (Inr True, q @ [m])" "[[9]]"]
  by simp

section \<open>Properties of the address register\<close>

lemmas register_defs = ChangeAddress_def GetAddress_def Identity_def string_at_address_def
  c_string_def

text \<open>
  Where no NUL byte is in the way the register does what is meant: with a stored address
  of 64 non-zero bytes followed by a NUL, a valid change to another such address and a
  signature that starts with a NUL succeeds, and \<open>GetAddress\<close> returns the new address.
\<close>

lemma register_without_NUL_in_address:
  "ChangeAddress Identity (\<lambda>plain sig key. True) () (66 # replicate 63 66)
     (0 # replicate 255 84)
     \<lparr> address = 65 # replicate 63 65, signature = 0 # replicate 255 83 \<rparr> =
     (Inr (), \<lparr> address = 66 # replicate 63 66, signature = 0 # replicate 255 84 \<rparr>)
   \<and> GetAddress Identity
       \<lparr> address = 66 # replicate 63 66, signature = 0 # replicate 255 84 \<rparr> =
       Inr (66 # replicate 63 66)"
  by (simp add: register_defs takeWhile_replicate_nonzero)

text \<open>
  Claim C3 fails on the code. The writer is constructed for a name of 64 non-zero bytes
  and a signature that starts with a NUL, so the stored address is read back whole.
  \<open>ChangeAddress\<close> to a different address with a signature that verifies overwrites both
  fields; but the new address has a NUL as its second byte, and \<open>GetAddress\<close> reads only
  the one byte before it: \<open>Identity\<close> throws \<open>invalid_string_size\<close>, and a constructor
  without the size check would return that one byte. In neither case is the new address
  returned.
\<close>

theorem GetAddress_after_ChangeAddress_stops_at_NUL:
  "fst (SafeReadOnlySharedMemory_ctor 400 64 256 (65 # replicate 63 65) (0 # replicate 255 83)
          no_shared_memory) =
     Inr \<lparr> address = 65 # replicate 63 65, signature = 0 # replicate 255 83 \<rparr>
   \<and> ChangeAddress Identity (\<lambda>plain sig key. True) () (66 # 0 # replicate 62 66)
       (replicate 256 84)
       \<lparr> address = 65 # replicate 63 65, signature = 0 # replicate 255 83 \<rparr> =
       (Inr (), \<lparr> address = 66 # 0 # replicate 62 66, signature = replicate 256 84 \<rparr>)
   \<and> GetAddress Identity
       \<lparr> address = 66 # 0 # replicate 62 66, signature = replicate 256 84 \<rparr> =
       Inl invalid_string_size
   \<and> ChangeAddress Inr (\<lambda>plain sig key. True) () (66 # 0 # replicate 62 66)
       (replicate 256 84)
       \<lparr> address = 65 # replicate 63 65, signature = 0 # replicate 255 83 \<rparr> =
       (Inr (), \<lparr> address = 66 # 0 # replicate 62 66, signature = replicate 256 84 \<rparr>)
   \<and> GetAddress Inr
       \<lparr> address = 66 # 0 # replicate 62 66, signature = replicate 256 84 \<rparr> =
       Inr [66]"
  by (simp add: register_defs takeWhile_replicate_nonzero SafeReadOnlySharedMemory_ctor_def
      shared_memory_object_ctor_def update_object_def no_shared_memory_def
      lifestuff_manager_def)

text \<open>
  Claim C9 fails on the code. The writer is constructed for a name whose second byte is a
  NUL. \<open>ChangeAddress\<close> called with that same address and a signature that does not verify
  does not return successfully: the string read from the buffer stops at the NUL, and
  constructing \<open>current_address\<close> from it throws \<open>invalid_string_size\<close>; with a constructor
  without the size check \<open>current_address\<close> would be the one byte before the NUL, unequal
  to the new address, so that the signature is checked and \<open>invalid_signature\<close> thrown.
\<close>

theorem ChangeAddress_same_address_throws:
  "fst (SafeReadOnlySharedMemory_ctor 400 64 256 (65 # 0 # replicate 62 65) (replicate 256 83)
          no_shared_memory) =
     Inr \<lparr> address = 65 # 0 # replicate 62 65, signature = replicate 256 83 \<rparr>
   \<and> ChangeAddress Identity (\<lambda>plain sig key. False) () (65 # 0 # replicate 62 65)
       (replicate 256 1)
       \<lparr> address = 65 # 0 # replicate 62 65, signature = replicate 256 83 \<rparr> =
       (Inl invalid_string_size,
        \<lparr> address = 65 # 0 # replicate 62 65, signature = replicate 256 83 \<rparr>)
   \<and> ChangeAddress Inr (\<lambda>plain sig key. False) () (65 # 0 # replicate 62 65)
       (replicate 256 1)
       \<lparr> address = 65 # 0 # replicate 62 65, signature = replicate 256 83 \<rparr> =
       (Inl invalid_signature,
        \<lparr> address = 65 # 0 # replicate 62 65, signature = replicate 256 83 \<rparr>)"
  by (simp add: register_defs takeWhile_replicate_nonzero SafeReadOnlySharedMemory_ctor_def
      shared_memory_object_ctor_def update_object_def no_shared_memory_def
      lifestuff_manager_def)

end
